theory Spec2Isabelle
  imports Main "HOL-Library.Word"
begin

unbundle bit_operations_syntax

section \<open>Scalar types and the host\<close>

text \<open>
  Modelled from the spec: the scalar typedefs \<^verbatim>\<open>s8 .. u64\<close>, \<^verbatim>\<open>f32\<close> and \<^verbatim>\<open>f64\<close> that
  \<^verbatim>\<open>src/emu/riscv-processor.h\<close> uses are declared in another header, which is not
  among the sources; the spec gives their widths (8-, 16-, 32- and 64-bit integer views,
  single and double precision). A scalar is held as its bit pattern, a word of its
  width: a signed type is read with \<open>sint\<close>, an unsigned one with \<open>unat\<close>, and a
  floating-point type is its IEEE-754 encoding (the header performs no floating-point
  operation).
\<close>

type_synonym s8 = "8 word"
type_synonym u8 = "8 word"
type_synonym s16 = "16 word"
type_synonym u16 = "16 word"
type_synonym s32 = "32 word"
type_synonym u32 = "32 word"
type_synonym s64 = "64 word"
type_synonym u64 = "64 word"
type_synonym f32 = "32 word"
type_synonym f64 = "64 word"

text \<open>\<^verbatim>\<open>sizeof(T)\<close> of a scalar type, in bytes.\<close>

definition sizeof :: "'a::len word itself \<Rightarrow> nat" where
  "sizeof ty = LENGTH('a) div 8"

text \<open>
  The host byte order, \<^verbatim>\<open>_BYTE_ORDER\<close>, is fixed when the header is compiled; every
  definition that depends on it takes it as its first argument.
\<close>

datatype byte_order = LITTLE_ENDIAN | BIG_ENDIAN

text \<open>
  The object representation of a scalar: its bytes in memory order, and the scalar that
  a run of bytes in memory denotes.
\<close>

definition object_bytes :: "byte_order \<Rightarrow> 'a::len word \<Rightarrow> u8 list" where
  "object_bytes bo v =
     (let lsb_first = map (\<lambda>i. ucast (drop_bit (8 * i) v)) [0..<sizeof TYPE('a word)]
      in if bo = LITTLE_ENDIAN then lsb_first else rev lsb_first)"

definition object_value :: "byte_order \<Rightarrow> u8 list \<Rightarrow> 'a::len word" where
  "object_value bo bs =
     (if bo = LITTLE_ENDIAN then word_rcat (rev bs) else word_rcat bs)"

section \<open>Structs and unions of scalars\<close>

text \<open>
  Every member struct of the register unions has the members \<^verbatim>\<open>val\<close> and \<^verbatim>\<open>pad\<close>
  only. A struct is the list of its members in declaration order, each with the size of
  its element type and its number of elements (\<^verbatim>\<open>s16 pad[3]\<close> is \<open>(pad, 2, 3)\<close>). All
  members of one struct have the same alignment, so the compiler inserts no padding of
  its own and a member starts where the previous one ends.
\<close>

datatype field = val | pad

type_synonym struct = "(field \<times> nat \<times> nat) list"

fun sizeof_struct :: "struct \<Rightarrow> nat" where
  "sizeof_struct [] = 0"
| "sizeof_struct ((g, sz, n) # ms) = sz * n + sizeof_struct ms"

fun offsetof :: "field \<Rightarrow> struct \<Rightarrow> nat" where
  "offsetof f [] = 0"
| "offsetof f ((g, sz, n) # ms) = (if f = g then 0 else sz * n + offsetof f ms)"

text \<open>The members of a union all start at offset 0; its size is that of the largest.\<close>

fun sizeof_union :: "struct list \<Rightarrow> nat" where
  "sizeof_union [] = 0"
| "sizeof_union (s # ss) = max (sizeof_struct s) (sizeof_union ss)"

text \<open>
  Reading and writing the scalar member \<open>f\<close> of the struct \<open>s\<close> overlaid on the bytes of
  a union: the access touches \<^verbatim>\<open>sizeof(T)\<close> bytes from the member's offset.
\<close>

definition member_read :: "byte_order \<Rightarrow> field \<Rightarrow> struct \<Rightarrow> u8 list \<Rightarrow> 'a::len word" where
  "member_read bo f s bytes =
     object_value bo (take (sizeof TYPE('a word)) (drop (offsetof f s) bytes))"

definition member_write :: "byte_order \<Rightarrow> field \<Rightarrow> struct \<Rightarrow> 'a::len word \<Rightarrow> u8 list \<Rightarrow> u8 list" where
  "member_write bo f s v bytes =
     take (offsetof f s) bytes @ object_bytes bo v
       @ drop (offsetof f s + sizeof TYPE('a word)) bytes"

text \<open>\<^verbatim>\<open>memset(&r, 0, n)\<close> on a union of \<open>n\<close> bytes.\<close>

definition memset_zero :: "nat \<Rightarrow> u8 list" where
  "memset_zero n = replicate n 0"

section \<open>RV32 integer register\<close>

text \<open>
  \<^verbatim>\<open>struct ireg_rv32\<close>: the union \<^verbatim>\<open>r\<close> of the full-width views \<^verbatim>\<open>x xu w wu\<close> and the
  narrow views \<^verbatim>\<open>h hu b bu\<close>, whose padding follows the value on a little-endian host
  and precedes it on a big-endian one. The register is the bytes of the union.
\<close>

record ireg_rv32 =
  r :: "u8 list"

definition ireg_rv32_x :: "byte_order \<Rightarrow> struct" where
  "ireg_rv32_x bo = [(val, sizeof TYPE(s32), 1)]"

definition ireg_rv32_xu :: "byte_order \<Rightarrow> struct" where
  "ireg_rv32_xu bo = [(val, sizeof TYPE(u32), 1)]"

definition ireg_rv32_w :: "byte_order \<Rightarrow> struct" where
  "ireg_rv32_w bo = [(val, sizeof TYPE(s32), 1)]"

definition ireg_rv32_wu :: "byte_order \<Rightarrow> struct" where
  "ireg_rv32_wu bo = [(val, sizeof TYPE(u32), 1)]"

definition ireg_rv32_h :: "byte_order \<Rightarrow> struct" where
  "ireg_rv32_h bo =
     (if bo = LITTLE_ENDIAN
      then [(val, sizeof TYPE(s16), 1), (pad, sizeof TYPE(s16), 1)]
      else [(pad, sizeof TYPE(s16), 1), (val, sizeof TYPE(s16), 1)])"

definition ireg_rv32_hu :: "byte_order \<Rightarrow> struct" where
  "ireg_rv32_hu bo =
     (if bo = LITTLE_ENDIAN
      then [(val, sizeof TYPE(u16), 1), (pad, sizeof TYPE(u16), 1)]
      else [(pad, sizeof TYPE(u16), 1), (val, sizeof TYPE(u16), 1)])"

definition ireg_rv32_b :: "byte_order \<Rightarrow> struct" where
  "ireg_rv32_b bo =
     (if bo = LITTLE_ENDIAN
      then [(val, sizeof TYPE(s8), 1), (pad, sizeof TYPE(s8), 3)]
      else [(pad, sizeof TYPE(s8), 3), (val, sizeof TYPE(s8), 1)])"

definition ireg_rv32_bu :: "byte_order \<Rightarrow> struct" where
  "ireg_rv32_bu bo =
     (if bo = LITTLE_ENDIAN
      then [(val, sizeof TYPE(u8), 1), (pad, sizeof TYPE(u8), 3)]
      else [(pad, sizeof TYPE(u8), 3), (val, sizeof TYPE(u8), 1)])"

definition ireg_rv32_r :: "byte_order \<Rightarrow> struct list" where
  "ireg_rv32_r bo = [ireg_rv32_x bo, ireg_rv32_xu bo, ireg_rv32_w bo, ireg_rv32_wu bo, ireg_rv32_h bo, ireg_rv32_hu bo, ireg_rv32_b bo, ireg_rv32_bu bo]"

text \<open>The value of each view, \<^verbatim>\<open>r.<view>.val\<close>.\<close>

definition ireg_rv32_x_val :: "byte_order \<Rightarrow> ireg_rv32 \<Rightarrow> s32" where
  "ireg_rv32_x_val bo reg = member_read bo val (ireg_rv32_x bo) (ireg_rv32.r reg)"

definition ireg_rv32_xu_val :: "byte_order \<Rightarrow> ireg_rv32 \<Rightarrow> u32" where
  "ireg_rv32_xu_val bo reg = member_read bo val (ireg_rv32_xu bo) (ireg_rv32.r reg)"

definition ireg_rv32_w_val :: "byte_order \<Rightarrow> ireg_rv32 \<Rightarrow> s32" where
  "ireg_rv32_w_val bo reg = member_read bo val (ireg_rv32_w bo) (ireg_rv32.r reg)"

definition ireg_rv32_wu_val :: "byte_order \<Rightarrow> ireg_rv32 \<Rightarrow> u32" where
  "ireg_rv32_wu_val bo reg = member_read bo val (ireg_rv32_wu bo) (ireg_rv32.r reg)"

definition ireg_rv32_h_val :: "byte_order \<Rightarrow> ireg_rv32 \<Rightarrow> s16" where
  "ireg_rv32_h_val bo reg = member_read bo val (ireg_rv32_h bo) (ireg_rv32.r reg)"

definition ireg_rv32_hu_val :: "byte_order \<Rightarrow> ireg_rv32 \<Rightarrow> u16" where
  "ireg_rv32_hu_val bo reg = member_read bo val (ireg_rv32_hu bo) (ireg_rv32.r reg)"

definition ireg_rv32_b_val :: "byte_order \<Rightarrow> ireg_rv32 \<Rightarrow> s8" where
  "ireg_rv32_b_val bo reg = member_read bo val (ireg_rv32_b bo) (ireg_rv32.r reg)"

definition ireg_rv32_bu_val :: "byte_order \<Rightarrow> ireg_rv32 \<Rightarrow> u8" where
  "ireg_rv32_bu_val bo reg = member_read bo val (ireg_rv32_bu bo) (ireg_rv32.r reg)"

text \<open>The constructor: \<^verbatim>\<open>memset(&r, 0, sizeof(r))\<close>.\<close>

definition ireg_rv32_ctor :: "byte_order \<Rightarrow> ireg_rv32" where
  "ireg_rv32_ctor bo = \<lparr>r = memset_zero (sizeof_union (ireg_rv32_r bo))\<rparr>"

text \<open>
  \<^verbatim>\<open>xlen = sizeof(ux) << 3\<close>, \<^verbatim>\<open>operator=(s32 val) { r.x.val = val; }\<close>,
  \<^verbatim>\<open>operator s32() { return r.x.val; }\<close> and
  \<^verbatim>\<open>operator s32*() { return reinterpret_cast<s32*>(r.w.val); }\<close>. A pointer is the
  address it holds, a word of the host's pointer width \<open>'p\<close>; converting a signed
  integer to a pointer sign-extends it to that width, or truncates it when the pointer
  is narrower (the conversion is implementation-defined, and this is what the
  compilers the emulator builds with document).
\<close>

definition ireg_rv32_xlen :: nat where
  "ireg_rv32_xlen = push_bit 3 (sizeof TYPE(u32))"

definition ireg_rv32_assign :: "byte_order \<Rightarrow> s32 \<Rightarrow> ireg_rv32 \<Rightarrow> ireg_rv32" where
  "ireg_rv32_assign bo v reg =
     reg\<lparr>ireg_rv32.r := member_write bo val (ireg_rv32_x bo) v (ireg_rv32.r reg)\<rparr>"

definition ireg_rv32_to_s32 :: "byte_order \<Rightarrow> ireg_rv32 \<Rightarrow> s32" where
  "ireg_rv32_to_s32 bo reg = ireg_rv32_x_val bo reg"

definition ireg_rv32_to_s32_ptr :: "byte_order \<Rightarrow> ireg_rv32 \<Rightarrow> 'p::len word" where
  "ireg_rv32_to_s32_ptr bo reg = scast (ireg_rv32_w_val bo reg)"

section \<open>RV64 integer register\<close>

text \<open>
  \<^verbatim>\<open>struct ireg_rv64\<close>: as above with 64-bit views \<^verbatim>\<open>l lu x xu\<close> and the narrow views
  \<^verbatim>\<open>w wu h hu b bu\<close>.
\<close>

record ireg_rv64 =
  r :: "u8 list"

definition ireg_rv64_l :: "byte_order \<Rightarrow> struct" where
  "ireg_rv64_l bo = [(val, sizeof TYPE(s64), 1)]"

definition ireg_rv64_lu :: "byte_order \<Rightarrow> struct" where
  "ireg_rv64_lu bo = [(val, sizeof TYPE(u64), 1)]"

definition ireg_rv64_x :: "byte_order \<Rightarrow> struct" where
  "ireg_rv64_x bo = [(val, sizeof TYPE(s64), 1)]"

definition ireg_rv64_xu :: "byte_order \<Rightarrow> struct" where
  "ireg_rv64_xu bo = [(val, sizeof TYPE(u64), 1)]"

definition ireg_rv64_w :: "byte_order \<Rightarrow> struct" where
  "ireg_rv64_w bo =
     (if bo = LITTLE_ENDIAN
      then [(val, sizeof TYPE(s32), 1), (pad, sizeof TYPE(s32), 1)]
      else [(pad, sizeof TYPE(s32), 1), (val, sizeof TYPE(s32), 1)])"

definition ireg_rv64_wu :: "byte_order \<Rightarrow> struct" where
  "ireg_rv64_wu bo =
     (if bo = LITTLE_ENDIAN
      then [(val, sizeof TYPE(u32), 1), (pad, sizeof TYPE(u32), 1)]
      else [(pad, sizeof TYPE(u32), 1), (val, sizeof TYPE(u32), 1)])"

definition ireg_rv64_h :: "byte_order \<Rightarrow> struct" where
  "ireg_rv64_h bo =
     (if bo = LITTLE_ENDIAN
      then [(val, sizeof TYPE(s16), 1), (pad, sizeof TYPE(s16), 3)]
      else [(pad, sizeof TYPE(s16), 3), (val, sizeof TYPE(s16), 1)])"

definition ireg_rv64_hu :: "byte_order \<Rightarrow> struct" where
  "ireg_rv64_hu bo =
     (if bo = LITTLE_ENDIAN
      then [(val, sizeof TYPE(u16), 1), (pad, sizeof TYPE(u16), 3)]
      else [(pad, sizeof TYPE(u16), 3), (val, sizeof TYPE(u16), 1)])"

definition ireg_rv64_b :: "byte_order \<Rightarrow> struct" where
  "ireg_rv64_b bo =
     (if bo = LITTLE_ENDIAN
      then [(val, sizeof TYPE(s8), 1), (pad, sizeof TYPE(s8), 7)]
      else [(pad, sizeof TYPE(s8), 7), (val, sizeof TYPE(s8), 1)])"

definition ireg_rv64_bu :: "byte_order \<Rightarrow> struct" where
  "ireg_rv64_bu bo =
     (if bo = LITTLE_ENDIAN
      then [(val, sizeof TYPE(u8), 1), (pad, sizeof TYPE(u8), 7)]
      else [(pad, sizeof TYPE(u8), 7), (val, sizeof TYPE(u8), 1)])"

definition ireg_rv64_r :: "byte_order \<Rightarrow> struct list" where
  "ireg_rv64_r bo = [ireg_rv64_l bo, ireg_rv64_lu bo, ireg_rv64_x bo, ireg_rv64_xu bo, ireg_rv64_w bo, ireg_rv64_wu bo, ireg_rv64_h bo, ireg_rv64_hu bo, ireg_rv64_b bo, ireg_rv64_bu bo]"

text \<open>The value of each view, \<^verbatim>\<open>r.<view>.val\<close>.\<close>

definition ireg_rv64_l_val :: "byte_order \<Rightarrow> ireg_rv64 \<Rightarrow> s64" where
  "ireg_rv64_l_val bo reg = member_read bo val (ireg_rv64_l bo) (ireg_rv64.r reg)"

definition ireg_rv64_lu_val :: "byte_order \<Rightarrow> ireg_rv64 \<Rightarrow> u64" where
  "ireg_rv64_lu_val bo reg = member_read bo val (ireg_rv64_lu bo) (ireg_rv64.r reg)"

definition ireg_rv64_x_val :: "byte_order \<Rightarrow> ireg_rv64 \<Rightarrow> s64" where
  "ireg_rv64_x_val bo reg = member_read bo val (ireg_rv64_x bo) (ireg_rv64.r reg)"

definition ireg_rv64_xu_val :: "byte_order \<Rightarrow> ireg_rv64 \<Rightarrow> u64" where
  "ireg_rv64_xu_val bo reg = member_read bo val (ireg_rv64_xu bo) (ireg_rv64.r reg)"

definition ireg_rv64_w_val :: "byte_order \<Rightarrow> ireg_rv64 \<Rightarrow> s32" where
  "ireg_rv64_w_val bo reg = member_read bo val (ireg_rv64_w bo) (ireg_rv64.r reg)"

definition ireg_rv64_wu_val :: "byte_order \<Rightarrow> ireg_rv64 \<Rightarrow> u32" where
  "ireg_rv64_wu_val bo reg = member_read bo val (ireg_rv64_wu bo) (ireg_rv64.r reg)"

definition ireg_rv64_h_val :: "byte_order \<Rightarrow> ireg_rv64 \<Rightarrow> s16" where
  "ireg_rv64_h_val bo reg = member_read bo val (ireg_rv64_h bo) (ireg_rv64.r reg)"

definition ireg_rv64_hu_val :: "byte_order \<Rightarrow> ireg_rv64 \<Rightarrow> u16" where
  "ireg_rv64_hu_val bo reg = member_read bo val (ireg_rv64_hu bo) (ireg_rv64.r reg)"

definition ireg_rv64_b_val :: "byte_order \<Rightarrow> ireg_rv64 \<Rightarrow> s8" where
  "ireg_rv64_b_val bo reg = member_read bo val (ireg_rv64_b bo) (ireg_rv64.r reg)"

definition ireg_rv64_bu_val :: "byte_order \<Rightarrow> ireg_rv64 \<Rightarrow> u8" where
  "ireg_rv64_bu_val bo reg = member_read bo val (ireg_rv64_bu bo) (ireg_rv64.r reg)"

text \<open>The constructor: \<^verbatim>\<open>memset(&r, 0, sizeof(r))\<close>.\<close>

definition ireg_rv64_ctor :: "byte_order \<Rightarrow> ireg_rv64" where
  "ireg_rv64_ctor bo = \<lparr>r = memset_zero (sizeof_union (ireg_rv64_r bo))\<rparr>"

text \<open>
  \<^verbatim>\<open>xlen\<close>, \<^verbatim>\<open>operator=(s64 val) { r.x.val = val; }\<close>, \<^verbatim>\<open>operator s64()\<close>, and the two
  pointer conversions: \<^verbatim>\<open>operator s32*()\<close> converts \<^verbatim>\<open>r.w.val\<close>, \<^verbatim>\<open>operator s64*()\<close>
  converts \<^verbatim>\<open>r.l.val\<close>.
\<close>

definition ireg_rv64_xlen :: nat where
  "ireg_rv64_xlen = push_bit 3 (sizeof TYPE(u64))"

definition ireg_rv64_assign :: "byte_order \<Rightarrow> s64 \<Rightarrow> ireg_rv64 \<Rightarrow> ireg_rv64" where
  "ireg_rv64_assign bo v reg =
     reg\<lparr>ireg_rv64.r := member_write bo val (ireg_rv64_x bo) v (ireg_rv64.r reg)\<rparr>"

definition ireg_rv64_to_s64 :: "byte_order \<Rightarrow> ireg_rv64 \<Rightarrow> s64" where
  "ireg_rv64_to_s64 bo reg = ireg_rv64_x_val bo reg"

definition ireg_rv64_to_s32_ptr :: "byte_order \<Rightarrow> ireg_rv64 \<Rightarrow> 'p::len word" where
  "ireg_rv64_to_s32_ptr bo reg = scast (ireg_rv64_w_val bo reg)"

definition ireg_rv64_to_s64_ptr :: "byte_order \<Rightarrow> ireg_rv64 \<Rightarrow> 'p::len word" where
  "ireg_rv64_to_s64_ptr bo reg = scast (ireg_rv64_l_val bo reg)"

section \<open>FP32 register\<close>

text \<open>\<^verbatim>\<open>struct freg_fp32\<close>: five views of one 32-bit cell, none padded.\<close>

record freg_fp32 =
  r :: "u8 list"

definition freg_fp32_w :: "byte_order \<Rightarrow> struct" where
  "freg_fp32_w bo = [(val, sizeof TYPE(s32), 1)]"

definition freg_fp32_wu :: "byte_order \<Rightarrow> struct" where
  "freg_fp32_wu bo = [(val, sizeof TYPE(u32), 1)]"

definition freg_fp32_x :: "byte_order \<Rightarrow> struct" where
  "freg_fp32_x bo = [(val, sizeof TYPE(s32), 1)]"

definition freg_fp32_xu :: "byte_order \<Rightarrow> struct" where
  "freg_fp32_xu bo = [(val, sizeof TYPE(u32), 1)]"

definition freg_fp32_s :: "byte_order \<Rightarrow> struct" where
  "freg_fp32_s bo = [(val, sizeof TYPE(f32), 1)]"

definition freg_fp32_r :: "byte_order \<Rightarrow> struct list" where
  "freg_fp32_r bo = [freg_fp32_w bo, freg_fp32_wu bo, freg_fp32_x bo, freg_fp32_xu bo, freg_fp32_s bo]"

text \<open>The value of each view, \<^verbatim>\<open>r.<view>.val\<close>.\<close>

definition freg_fp32_w_val :: "byte_order \<Rightarrow> freg_fp32 \<Rightarrow> s32" where
  "freg_fp32_w_val bo reg = member_read bo val (freg_fp32_w bo) (freg_fp32.r reg)"

definition freg_fp32_wu_val :: "byte_order \<Rightarrow> freg_fp32 \<Rightarrow> u32" where
  "freg_fp32_wu_val bo reg = member_read bo val (freg_fp32_wu bo) (freg_fp32.r reg)"

definition freg_fp32_x_val :: "byte_order \<Rightarrow> freg_fp32 \<Rightarrow> s32" where
  "freg_fp32_x_val bo reg = member_read bo val (freg_fp32_x bo) (freg_fp32.r reg)"

definition freg_fp32_xu_val :: "byte_order \<Rightarrow> freg_fp32 \<Rightarrow> u32" where
  "freg_fp32_xu_val bo reg = member_read bo val (freg_fp32_xu bo) (freg_fp32.r reg)"

definition freg_fp32_s_val :: "byte_order \<Rightarrow> freg_fp32 \<Rightarrow> f32" where
  "freg_fp32_s_val bo reg = member_read bo val (freg_fp32_s bo) (freg_fp32.r reg)"

text \<open>The constructor: \<^verbatim>\<open>memset(&r, 0, sizeof(r))\<close>.\<close>

definition freg_fp32_ctor :: "byte_order \<Rightarrow> freg_fp32" where
  "freg_fp32_ctor bo = \<lparr>r = memset_zero (sizeof_union (freg_fp32_r bo))\<rparr>"

definition freg_fp32_flen :: nat where
  "freg_fp32_flen = push_bit 3 (sizeof TYPE(u32))"

section \<open>FP64 register\<close>

text \<open>
  \<^verbatim>\<open>struct freg_fp64\<close>: 64-bit integer views \<^verbatim>\<open>l lu x xu\<close>, the double view \<^verbatim>\<open>d\<close>, and
  the single-precision view \<^verbatim>\<open>s\<close> and the 32-bit integer views \<^verbatim>\<open>w wu\<close>, each with a
  \<^verbatim>\<open>u32 pad\<close> after the value (little-endian) or before it (big-endian).
\<close>

record freg_fp64 =
  r :: "u8 list"

definition freg_fp64_l :: "byte_order \<Rightarrow> struct" where
  "freg_fp64_l bo = [(val, sizeof TYPE(s64), 1)]"

definition freg_fp64_lu :: "byte_order \<Rightarrow> struct" where
  "freg_fp64_lu bo = [(val, sizeof TYPE(u64), 1)]"

definition freg_fp64_x :: "byte_order \<Rightarrow> struct" where
  "freg_fp64_x bo = [(val, sizeof TYPE(s64), 1)]"

definition freg_fp64_xu :: "byte_order \<Rightarrow> struct" where
  "freg_fp64_xu bo = [(val, sizeof TYPE(u64), 1)]"

definition freg_fp64_d :: "byte_order \<Rightarrow> struct" where
  "freg_fp64_d bo = [(val, sizeof TYPE(f64), 1)]"

definition freg_fp64_s :: "byte_order \<Rightarrow> struct" where
  "freg_fp64_s bo =
     (if bo = LITTLE_ENDIAN
      then [(val, sizeof TYPE(f32), 1), (pad, sizeof TYPE(u32), 1)]
      else [(pad, sizeof TYPE(u32), 1), (val, sizeof TYPE(f32), 1)])"

definition freg_fp64_w :: "byte_order \<Rightarrow> struct" where
  "freg_fp64_w bo =
     (if bo = LITTLE_ENDIAN
      then [(val, sizeof TYPE(s32), 1), (pad, sizeof TYPE(u32), 1)]
      else [(pad, sizeof TYPE(u32), 1), (val, sizeof TYPE(s32), 1)])"

definition freg_fp64_wu :: "byte_order \<Rightarrow> struct" where
  "freg_fp64_wu bo =
     (if bo = LITTLE_ENDIAN
      then [(val, sizeof TYPE(u32), 1), (pad, sizeof TYPE(u32), 1)]
      else [(pad, sizeof TYPE(u32), 1), (val, sizeof TYPE(u32), 1)])"

definition freg_fp64_r :: "byte_order \<Rightarrow> struct list" where
  "freg_fp64_r bo = [freg_fp64_l bo, freg_fp64_lu bo, freg_fp64_x bo, freg_fp64_xu bo, freg_fp64_d bo, freg_fp64_s bo, freg_fp64_w bo, freg_fp64_wu bo]"

text \<open>The value of each view, \<^verbatim>\<open>r.<view>.val\<close>.\<close>

definition freg_fp64_l_val :: "byte_order \<Rightarrow> freg_fp64 \<Rightarrow> s64" where
  "freg_fp64_l_val bo reg = member_read bo val (freg_fp64_l bo) (freg_fp64.r reg)"

definition freg_fp64_lu_val :: "byte_order \<Rightarrow> freg_fp64 \<Rightarrow> u64" where
  "freg_fp64_lu_val bo reg = member_read bo val (freg_fp64_lu bo) (freg_fp64.r reg)"

definition freg_fp64_x_val :: "byte_order \<Rightarrow> freg_fp64 \<Rightarrow> s64" where
  "freg_fp64_x_val bo reg = member_read bo val (freg_fp64_x bo) (freg_fp64.r reg)"

definition freg_fp64_xu_val :: "byte_order \<Rightarrow> freg_fp64 \<Rightarrow> u64" where
  "freg_fp64_xu_val bo reg = member_read bo val (freg_fp64_xu bo) (freg_fp64.r reg)"

definition freg_fp64_d_val :: "byte_order \<Rightarrow> freg_fp64 \<Rightarrow> f64" where
  "freg_fp64_d_val bo reg = member_read bo val (freg_fp64_d bo) (freg_fp64.r reg)"

definition freg_fp64_s_val :: "byte_order \<Rightarrow> freg_fp64 \<Rightarrow> f32" where
  "freg_fp64_s_val bo reg = member_read bo val (freg_fp64_s bo) (freg_fp64.r reg)"

definition freg_fp64_w_val :: "byte_order \<Rightarrow> freg_fp64 \<Rightarrow> s32" where
  "freg_fp64_w_val bo reg = member_read bo val (freg_fp64_w bo) (freg_fp64.r reg)"

definition freg_fp64_wu_val :: "byte_order \<Rightarrow> freg_fp64 \<Rightarrow> u32" where
  "freg_fp64_wu_val bo reg = member_read bo val (freg_fp64_wu bo) (freg_fp64.r reg)"

text \<open>The constructor: \<^verbatim>\<open>memset(&r, 0, sizeof(r))\<close>.\<close>

definition freg_fp64_ctor :: "byte_order \<Rightarrow> freg_fp64" where
  "freg_fp64_ctor bo = \<lparr>r = memset_zero (sizeof_union (freg_fp64_r bo))\<rparr>"

definition freg_fp64_flen :: nat where
  "freg_fp64_flen = push_bit 3 (sizeof TYPE(u64))"

text \<open>
  The register has no member functions besides the constructor: the executor assigns
  to the views directly. \<^verbatim>\<open>r.s.val = v\<close> and \<^verbatim>\<open>r.s.pad\<close>:
\<close>

definition freg_fp64_s_assign :: "byte_order \<Rightarrow> f32 \<Rightarrow> freg_fp64 \<Rightarrow> freg_fp64" where
  "freg_fp64_s_assign bo v reg =
     reg\<lparr>freg_fp64.r := member_write bo val (freg_fp64_s bo) v (freg_fp64.r reg)\<rparr>"

definition freg_fp64_s_pad :: "byte_order \<Rightarrow> freg_fp64 \<Rightarrow> u32" where
  "freg_fp64_s_pad bo reg = member_read bo pad (freg_fp64_s bo) (freg_fp64.r reg)"

section \<open>Processor logging flags\<close>

text \<open>The anonymous enumeration of log flags; an enumerator is an \<^verbatim>\<open>int\<close> constant.\<close>

definition proc_log_inst :: int where
  "proc_log_inst = push_bit 0 1"

definition proc_log_operands :: int where
  "proc_log_operands = push_bit 1 1"

definition proc_log_memory :: int where
  "proc_log_memory = push_bit 2 1"

definition proc_log_csr_mmode :: int where
  "proc_log_csr_mmode = push_bit 3 1"

definition proc_log_csr_hmode :: int where
  "proc_log_csr_hmode = push_bit 4 1"

definition proc_log_csr_smode :: int where
  "proc_log_csr_smode = push_bit 5 1"

definition proc_log_csr_umode :: int where
  "proc_log_csr_umode = push_bit 6 1"

definition proc_log_int_reg :: int where
  "proc_log_int_reg = push_bit 7 1"

definition proc_log_no_pseudo :: int where
  "proc_log_no_pseudo = push_bit 8 1"

text \<open>The enumerators in declaration order.\<close>

definition proc_log_flags :: "int list" where
  "proc_log_flags =
     [proc_log_inst, proc_log_operands, proc_log_memory, proc_log_csr_mmode,
      proc_log_csr_hmode, proc_log_csr_smode, proc_log_csr_umode, proc_log_int_reg,
      proc_log_no_pseudo]"

text \<open>
  The header only stores the flags, in the \<^verbatim>\<open>u32 log\<close> field. Its users switch a flag
  on with \<^verbatim>\<open>log |= flag\<close>, off with \<^verbatim>\<open>log &= ~flag\<close> and test it with
  \<^verbatim>\<open>log & flag\<close>; the \<^verbatim>\<open>int\<close> enumerator is converted to \<^verbatim>\<open>u32\<close> first.
\<close>

definition log_enable :: "int \<Rightarrow> u32 \<Rightarrow> u32" where
  "log_enable flag l = l OR word_of_int flag"

definition log_disable :: "int \<Rightarrow> u32 \<Rightarrow> u32" where
  "log_disable flag l = l AND NOT (word_of_int flag)"

definition log_enabled :: "int \<Rightarrow> u32 \<Rightarrow> bool" where
  "log_enabled flag l \<longleftrightarrow> l AND word_of_int flag \<noteq> 0"

section \<open>Processor state\<close>

text \<open>
  \<^verbatim>\<open>template <typename SX, typename UX, typename IREG, int IREG_COUNT, typename FREG,
  int FREG_COUNT> struct processor\<close>. The type parameters are type variables of the
  record; the integer parameters, and the default constructors of \<^verbatim>\<open>IREG\<close> and
  \<^verbatim>\<open>FREG\<close>, are arguments of the definitions that use them. A fixed-size array is a
  list of that length. \<^verbatim>\<open>jmp_buf\<close> comes from the host's \<^verbatim>\<open><setjmp.h>\<close>: an array of
  a size that the host fixes, held here as its bytes.
\<close>

type_synonym jmp_buf = "u8 list"

record ('sx, 'ux, 'ireg, 'freg) processor =
  pc :: 'ux
  ireg :: "'ireg list"
  freg :: "'freg list"
  node_id :: u16
  hart_id :: u16
  log :: u32
  lr :: 'sx
  badaddr :: 'sx
  env :: jmp_buf
  time :: u64
  cycle :: u64
  instret :: u64
  fcsr :: 'ux

text \<open>
  The processor dimensions:
  \<^verbatim>\<open>enum { xlen = sizeof(ux) << 3, ireg_count = IREG_COUNT, freg_count = FREG_COUNT }\<close>.
\<close>

definition xlen :: "('sx, 'u::len word, 'ireg, 'freg) processor itself \<Rightarrow> nat" where
  "xlen ty = push_bit 3 (sizeof TYPE('u word))"

definition ireg_count :: "nat \<Rightarrow> nat" where
  "ireg_count IREG_COUNT = IREG_COUNT"

definition freg_count :: "nat \<Rightarrow> nat" where
  "freg_count FREG_COUNT = FREG_COUNT"

text \<open>
  The constructor
  \<^verbatim>\<open>processor() : pc(0), ireg(), freg(), node_id(0), hart_id(0), log(0), lr(-1),
  badaddr(0), env(), time(0), cycle(0), instret(0), fcsr(0) {}\<close>:
  \<^verbatim>\<open>ireg()\<close> and \<^verbatim>\<open>freg()\<close> default-construct every element, \<^verbatim>\<open>env()\<close> zeroes
  the buffer.
\<close>

definition processor_ctor ::
  "'ireg \<Rightarrow> nat \<Rightarrow> 'freg \<Rightarrow> nat \<Rightarrow> nat \<Rightarrow> ('s::len word, 'u::len word, 'ireg, 'freg) processor" where
  "processor_ctor IREG IREG_COUNT FREG FREG_COUNT sizeof_jmp_buf =
     \<lparr>pc = 0,
      ireg = replicate (ireg_count IREG_COUNT) IREG,
      freg = replicate (freg_count FREG_COUNT) FREG,
      node_id = 0, hart_id = 0, log = 0, lr = - 1, badaddr = 0,
      env = memset_zero sizeof_jmp_buf,
      time = 0, cycle = 0, instret = 0, fcsr = 0\<rparr>"

text \<open>
  \<^verbatim>\<open>using processor_rv32imafd = processor<s32,u32,ireg_rv32,32,freg_fp64,32>\<close> and
  \<^verbatim>\<open>using processor_rv64imafd = processor<s64,u64,ireg_rv64,32,freg_fp64,32>\<close>:
  the type, its dimensions and its constructor.
\<close>

type_synonym processor_rv32imafd = "(s32, u32, ireg_rv32, freg_fp64) processor"

definition processor_rv32imafd_xlen :: nat where
  "processor_rv32imafd_xlen = xlen TYPE(processor_rv32imafd)"

definition processor_rv32imafd_ireg_count :: nat where
  "processor_rv32imafd_ireg_count = ireg_count 32"

definition processor_rv32imafd_freg_count :: nat where
  "processor_rv32imafd_freg_count = freg_count 32"

definition processor_rv32imafd :: "byte_order \<Rightarrow> nat \<Rightarrow> processor_rv32imafd" where
  "processor_rv32imafd bo sizeof_jmp_buf =
     processor_ctor (ireg_rv32_ctor bo) 32 (freg_fp64_ctor bo) 32 sizeof_jmp_buf"

type_synonym processor_rv64imafd = "(s64, u64, ireg_rv64, freg_fp64) processor"

definition processor_rv64imafd_xlen :: nat where
  "processor_rv64imafd_xlen = xlen TYPE(processor_rv64imafd)"

definition processor_rv64imafd_ireg_count :: nat where
  "processor_rv64imafd_ireg_count = ireg_count 32"

definition processor_rv64imafd_freg_count :: nat where
  "processor_rv64imafd_freg_count = freg_count 32"

definition processor_rv64imafd :: "byte_order \<Rightarrow> nat \<Rightarrow> processor_rv64imafd" where
  "processor_rv64imafd bo sizeof_jmp_buf =
     processor_ctor (ireg_rv64_ctor bo) 32 (freg_fp64_ctor bo) 32 sizeof_jmp_buf"

subsection \<open>Access by the executor\<close>

text \<open>
  The struct has public fields and no accessors. Subscripting an array outside its
  bounds is undefined behaviour (the header checks no index): it is \<open>None\<close> here.
\<close>

definition array_get :: "'a list \<Rightarrow> nat \<Rightarrow> 'a option" where
  "array_get xs i = (if i < length xs then Some (xs ! i) else None)"

definition array_modify :: "nat \<Rightarrow> ('a \<Rightarrow> 'a) \<Rightarrow> 'a list \<Rightarrow> 'a list option" where
  "array_modify i f xs = (if i < length xs then Some (xs[i := f (xs ! i)]) else None)"

text \<open>
  The mutations of one instance: assigning the program counter or a counter, and
  changing a register in place (an assignment to the register or to one of its views
  is a function on the register).
\<close>

datatype ('ux, 'ireg, 'freg) mutation =
    Set_pc 'ux
  | Modify_ireg nat "'ireg \<Rightarrow> 'ireg"
  | Modify_freg nat "'freg \<Rightarrow> 'freg"
  | Set_time u64
  | Set_cycle u64
  | Set_instret u64

fun mutate ::
  "('ux, 'ireg, 'freg) mutation \<Rightarrow> ('sx, 'ux, 'ireg, 'freg) processor
     \<Rightarrow> ('sx, 'ux, 'ireg, 'freg) processor option" where
  "mutate (Set_pc v) p = Some (p\<lparr>pc := v\<rparr>)"
| "mutate (Modify_ireg i f) p = map_option (\<lambda>rs. p\<lparr>ireg := rs\<rparr>) (array_modify i f (ireg p))"
| "mutate (Modify_freg i f) p = map_option (\<lambda>rs. p\<lparr>freg := rs\<rparr>) (array_modify i f (freg p))"
| "mutate (Set_time v) p = Some (p\<lparr>time := v\<rparr>)"
| "mutate (Set_cycle v) p = Some (p\<lparr>cycle := v\<rparr>)"
| "mutate (Set_instret v) p = Some (p\<lparr>instret := v\<rparr>)"

text \<open>
  Assigning an unsigned integer of any width to the \<^verbatim>\<open>u16\<close> fields \<^verbatim>\<open>node_id\<close> and
  \<^verbatim>\<open>hart_id\<close> converts it to \<^verbatim>\<open>u16\<close>.
\<close>

definition assign_node_id ::
  "'a::len word \<Rightarrow> ('sx, 'ux, 'ireg, 'freg) processor \<Rightarrow> ('sx, 'ux, 'ireg, 'freg) processor" where
  "assign_node_id v p = p\<lparr>node_id := ucast v\<rparr>"

definition assign_hart_id ::
  "'a::len word \<Rightarrow> ('sx, 'ux, 'ireg, 'freg) processor \<Rightarrow> ('sx, 'ux, 'ireg, 'freg) processor" where
  "assign_hart_id v p = p\<lparr>hart_id := ucast v\<rparr>"

subsection \<open>Instances in memory\<close>

text \<open>
  An instance of \<^verbatim>\<open>processor\<close> is an object in the host's memory: the
  \<^verbatim>\<open>sizeof(processor)\<close> bytes from its address. Memory is a map from addresses to
  bytes; reading and writing a run of bytes:
\<close>

type_synonym memory = "nat \<Rightarrow> u8"

definition mem_read :: "memory \<Rightarrow> nat \<Rightarrow> nat \<Rightarrow> u8 list" where
  "mem_read mem addr n = map (\<lambda>k. mem (addr + k)) [0..<n]"

definition mem_write :: "nat \<Rightarrow> u8 list \<Rightarrow> memory \<Rightarrow> memory" where
  "mem_write addr bytes mem =
     (\<lambda>x. if addr \<le> x \<and> x < addr + length bytes then bytes ! (x - addr) else mem x)"

text \<open>
  The non-static data members of \<^verbatim>\<open>struct processor\<close> in declaration order (lines
  167 to 185 of the header), each with the size and the alignment of its element type
  and its number of elements. The struct has no static member and no member of pointer
  or reference type: these thirteen members, held in the object itself, are all the
  state of an instance. A scalar and a register union are aligned to their size; the
  size and the alignment of \<^verbatim>\<open>jmp_buf\<close> are the host's.
\<close>

datatype member =
    M_pc | M_ireg | M_freg | M_node_id | M_hart_id | M_log | M_lr | M_badaddr | M_env
  | M_time | M_cycle | M_instret | M_fcsr

type_synonym member_decl = "member \<times> nat \<times> nat \<times> nat"

definition processor_members ::
  "nat \<Rightarrow> nat \<Rightarrow> nat \<Rightarrow> nat \<Rightarrow> nat \<Rightarrow> nat \<Rightarrow> nat \<Rightarrow> nat \<Rightarrow> member_decl list" where
  "processor_members sizeof_SX sizeof_UX sizeof_IREG IREG_COUNT sizeof_FREG FREG_COUNT
       sizeof_jmp_buf alignof_jmp_buf =
     [(M_pc, sizeof_UX, sizeof_UX, 1),
      (M_ireg, sizeof_IREG, sizeof_IREG, ireg_count IREG_COUNT),
      (M_freg, sizeof_FREG, sizeof_FREG, freg_count FREG_COUNT),
      (M_node_id, sizeof TYPE(u16), sizeof TYPE(u16), 1),
      (M_hart_id, sizeof TYPE(u16), sizeof TYPE(u16), 1),
      (M_log, sizeof TYPE(u32), sizeof TYPE(u32), 1),
      (M_lr, sizeof_SX, sizeof_SX, 1),
      (M_badaddr, sizeof_SX, sizeof_SX, 1),
      (M_env, sizeof_jmp_buf, alignof_jmp_buf, 1),
      (M_time, sizeof TYPE(u64), sizeof TYPE(u64), 1),
      (M_cycle, sizeof TYPE(u64), sizeof TYPE(u64), 1),
      (M_instret, sizeof TYPE(u64), sizeof TYPE(u64), 1),
      (M_fcsr, sizeof_UX, sizeof_UX, 1)]"

text \<open>
  The layout of a struct: a member starts at the next multiple of its alignment after
  the end of the previous member, and the struct's size is the end of the last member
  rounded up to the largest alignment.
\<close>

definition align_up :: "nat \<Rightarrow> nat \<Rightarrow> nat" where
  "align_up al pos = (if al = 0 then pos else ((pos + al - 1) div al) * al)"

fun member_offset :: "nat \<Rightarrow> member_decl list \<Rightarrow> member \<Rightarrow> nat option" where
  "member_offset pos [] m = None"
| "member_offset pos ((g, sz, al, n) # ds) m =
     (if m = g then Some (align_up al pos) else member_offset (align_up al pos + sz * n) ds m)"

fun member_extent :: "member_decl list \<Rightarrow> member \<Rightarrow> (nat \<times> nat) option" where
  "member_extent [] m = None"
| "member_extent ((g, sz, al, n) # ds) m = (if m = g then Some (sz, n) else member_extent ds m)"

fun members_end :: "nat \<Rightarrow> member_decl list \<Rightarrow> nat" where
  "members_end pos [] = pos"
| "members_end pos ((g, sz, al, n) # ds) = members_end (align_up al pos + sz * n) ds"

fun alignof_members :: "member_decl list \<Rightarrow> nat" where
  "alignof_members [] = 1"
| "alignof_members ((g, sz, al, n) # ds) = max al (alignof_members ds)"

definition sizeof_members :: "member_decl list \<Rightarrow> nat" where
  "sizeof_members ds = align_up (alignof_members ds) (members_end 0 ds)"

text \<open>
  Element \<open>i\<close> of the member \<open>m\<close> of the instance at the address \<open>base\<close>: its address
  and size, or \<open>None\<close> when the struct has no such member or the index is outside the
  member's extent. Reading the element, and assigning \<^verbatim>\<open>sizeof(T)\<close> bytes to it.
\<close>

definition obj_element :: "member_decl list \<Rightarrow> nat \<Rightarrow> member \<Rightarrow> nat \<Rightarrow> (nat \<times> nat) option" where
  "obj_element ds base m i =
     (case (member_offset 0 ds m, member_extent ds m) of
        (Some off, Some (sz, n)) \<Rightarrow> if i < n then Some (base + off + sz * i, sz) else None
      | _ \<Rightarrow> None)"

definition obj_fetch :: "member_decl list \<Rightarrow> nat \<Rightarrow> member \<Rightarrow> nat \<Rightarrow> memory \<Rightarrow> u8 list option" where
  "obj_fetch ds base m i mem =
     map_option (\<lambda>(addr, sz). mem_read mem addr sz) (obj_element ds base m i)"

definition obj_store ::
  "member_decl list \<Rightarrow> nat \<Rightarrow> member \<Rightarrow> nat \<Rightarrow> u8 list \<Rightarrow> memory \<Rightarrow> memory option" where
  "obj_store ds base m i bytes mem =
     (case obj_element ds base m i of
        None \<Rightarrow> None
      | Some (addr, sz) \<Rightarrow> if length bytes = sz then Some (mem_write addr bytes mem) else None)"

text \<open>
  The mutations above on an instance in memory, for a processor whose registers are
  the bytes that \<open>ireg_bytes\<close> and \<open>freg_bytes\<close> give: an assignment to a scalar
  member stores the object representation of the value, a change of a register reads
  the register's bytes, applies the change and stores the result into the same
  element (a change cannot resize the register).
\<close>

definition obj_mutate ::
  "byte_order \<Rightarrow> ('ireg \<Rightarrow> u8 list) \<Rightarrow> (u8 list \<Rightarrow> 'ireg) \<Rightarrow> ('freg \<Rightarrow> u8 list) \<Rightarrow> (u8 list \<Rightarrow> 'freg)
     \<Rightarrow> member_decl list \<Rightarrow> nat \<Rightarrow> ('u::len word, 'ireg, 'freg) mutation \<Rightarrow> memory \<Rightarrow> memory option" where
  "obj_mutate bo ireg_bytes ireg_at freg_bytes freg_at ds base m mem =
     (case m of
        Set_pc v \<Rightarrow> obj_store ds base M_pc 0 (object_bytes bo v) mem
      | Modify_ireg i f \<Rightarrow>
          Option.bind (obj_fetch ds base M_ireg i mem)
            (\<lambda>bs. obj_store ds base M_ireg i (ireg_bytes (f (ireg_at bs))) mem)
      | Modify_freg i f \<Rightarrow>
          Option.bind (obj_fetch ds base M_freg i mem)
            (\<lambda>bs. obj_store ds base M_freg i (freg_bytes (f (freg_at bs))) mem)
      | Set_time v \<Rightarrow> obj_store ds base M_time 0 (object_bytes bo v) mem
      | Set_cycle v \<Rightarrow> obj_store ds base M_cycle 0 (object_bytes bo v) mem
      | Set_instret v \<Rightarrow> obj_store ds base M_instret 0 (object_bytes bo v) mem)"

text \<open>The two configurations: their members and their mutations.\<close>

definition processor_rv32imafd_members :: "byte_order \<Rightarrow> nat \<Rightarrow> nat \<Rightarrow> member_decl list" where
  "processor_rv32imafd_members bo sizeof_jmp_buf alignof_jmp_buf =
     processor_members (sizeof TYPE(s32)) (sizeof TYPE(u32)) (sizeof_union (ireg_rv32_r bo)) 32
       (sizeof_union (freg_fp64_r bo)) 32 sizeof_jmp_buf alignof_jmp_buf"

definition processor_rv64imafd_members :: "byte_order \<Rightarrow> nat \<Rightarrow> nat \<Rightarrow> member_decl list" where
  "processor_rv64imafd_members bo sizeof_jmp_buf alignof_jmp_buf =
     processor_members (sizeof TYPE(s64)) (sizeof TYPE(u64)) (sizeof_union (ireg_rv64_r bo)) 32
       (sizeof_union (freg_fp64_r bo)) 32 sizeof_jmp_buf alignof_jmp_buf"

definition processor_rv32imafd_mutate ::
  "byte_order \<Rightarrow> nat \<Rightarrow> nat \<Rightarrow> nat \<Rightarrow> (u32, ireg_rv32, freg_fp64) mutation \<Rightarrow> memory \<Rightarrow> memory option" where
  "processor_rv32imafd_mutate bo sizeof_jmp_buf alignof_jmp_buf base m mem =
     obj_mutate bo ireg_rv32.r (\<lambda>bs. \<lparr>ireg_rv32.r = bs\<rparr>) freg_fp64.r (\<lambda>bs. \<lparr>freg_fp64.r = bs\<rparr>)
       (processor_rv32imafd_members bo sizeof_jmp_buf alignof_jmp_buf) base m mem"

definition processor_rv64imafd_mutate ::
  "byte_order \<Rightarrow> nat \<Rightarrow> nat \<Rightarrow> nat \<Rightarrow> (u64, ireg_rv64, freg_fp64) mutation \<Rightarrow> memory \<Rightarrow> memory option" where
  "processor_rv64imafd_mutate bo sizeof_jmp_buf alignof_jmp_buf base m mem =
     obj_mutate bo ireg_rv64.r (\<lambda>bs. \<lparr>ireg_rv64.r = bs\<rparr>) freg_fp64.r (\<lambda>bs. \<lparr>freg_fp64.r = bs\<rparr>)
       (processor_rv64imafd_members bo sizeof_jmp_buf alignof_jmp_buf) base m mem"

section \<open>Object representation: bytes and values\<close>

lemma bit_word_rcat_bytes:
  "bit (word_rcat (rev bs) :: 'a::len word) n \<longleftrightarrow>
     n < LENGTH('a) \<and> n div 8 < length bs \<and> bit ((bs :: u8 list) ! (n div 8)) (n mod 8)"
  using bit_horner_sum_uint_exp_iff [where 'a = 8 and ws = bs and n = n]
  by (simp add: word_rcat_def bit_word_of_int_iff)

lemma object_value_BE: "object_value BIG_ENDIAN bs = object_value LITTLE_ENDIAN (rev bs)"
  by (simp add: object_value_def)

lemma object_bytes_BE: "object_bytes BIG_ENDIAN v = rev (object_bytes LITTLE_ENDIAN v)"
  by (simp add: object_bytes_def Let_def)

lemma length_object_bytes [simp]:
  "length (object_bytes bo (v :: 'a::len word)) = sizeof TYPE('a word)"
  by (simp add: object_bytes_def Let_def)

lemma bit_object_value_LE:
  "bit (object_value LITTLE_ENDIAN bs :: 'a::len word) n \<longleftrightarrow>
     n < LENGTH('a) \<and> n div 8 < length bs \<and> bit (bs ! (n div 8)) (n mod 8)"
  by (simp add: object_value_def bit_word_rcat_bytes)

lemma nth_object_bytes_LE:
  "i < sizeof TYPE('a word) \<Longrightarrow>
     object_bytes LITTLE_ENDIAN (v :: 'a::len word) ! i = ucast (drop_bit (8 * i) v)"
  by (simp add: object_bytes_def Let_def)

lemma object_value_take_LE:
  fixes v :: "'a::len word"
  assumes "LENGTH('b::len) \<le> 8 * k" and "k \<le> sizeof TYPE('a word)"
  shows "(object_value LITTLE_ENDIAN (take k (object_bytes LITTLE_ENDIAN v)) :: 'b word) = ucast v"
proof (rule bit_word_eqI)
  fix n
  assume n: "n < LENGTH('b)"
  with assms have d: "n div 8 < k" "n div 8 < sizeof TYPE('a word)"
    by auto
  have "8 * (n div 8) + n mod 8 = n"
    by simp
  then show "bit (object_value LITTLE_ENDIAN (take k (object_bytes LITTLE_ENDIAN v)) :: 'b word) n
      \<longleftrightarrow> bit (ucast v :: 'b word) n"
    using n d
    by (simp add: bit_object_value_LE nth_object_bytes_LE bit_ucast_iff bit_drop_bit_eq)
qed

lemma object_value_take_BE:
  fixes v :: "'a::len word"
  assumes "LENGTH('b::len) \<le> 8 * k" and "k \<le> sizeof TYPE('a word)"
  shows "(object_value BIG_ENDIAN
            (take k (drop (sizeof TYPE('a word) - k) (object_bytes BIG_ENDIAN v))) :: 'b word)
         = ucast v"
proof -
  have "rev (take k (drop (sizeof TYPE('a word) - k) (object_bytes BIG_ENDIAN v)))
      = take k (object_bytes LITTLE_ENDIAN v)"
    using assms(2) by (simp add: object_bytes_BE rev_take rev_drop)
  then show ?thesis
    using object_value_take_LE [OF assms, of v] by (simp add: object_value_BE)
qed

lemma object_value_zero [simp]: "object_value bo (replicate k 0) = 0"
proof (cases bo)
  case LITTLE_ENDIAN
  then show ?thesis
    by (auto intro!: bit_word_eqI simp: bit_object_value_LE)
next
  case BIG_ENDIAN
  then show ?thesis
    by (auto intro!: bit_word_eqI simp: object_value_BE bit_object_value_LE)
qed

lemma member_read_after_write_first:
  fixes v :: "'a::len word"
  assumes wide: "offsetof g t = 0"
    and size: "LENGTH('b::len) \<le> 8 * sizeof TYPE('b word)" "sizeof TYPE('b word) \<le> sizeof TYPE('a word)"
    and off: "offsetof f s =
        (if bo = LITTLE_ENDIAN then 0 else sizeof TYPE('a word) - sizeof TYPE('b word))"
  shows "(member_read bo f s (member_write bo g t v bytes) :: 'b word) = ucast v"
proof (cases bo)
  case LITTLE_ENDIAN
  then show ?thesis
    using off wide size object_value_take_LE [OF size, of v]
    by (simp add: member_read_def member_write_def)
next
  case BIG_ENDIAN
  then show ?thesis
    using off wide size object_value_take_BE [OF size, of v]
    by (simp add: member_read_def member_write_def)
qed

lemmas ireg_rv32_views =
  ireg_rv32_x_def ireg_rv32_xu_def ireg_rv32_w_def ireg_rv32_wu_def
  ireg_rv32_h_def ireg_rv32_hu_def ireg_rv32_b_def ireg_rv32_bu_def

lemmas ireg_rv32_vals =
  ireg_rv32_x_val_def ireg_rv32_xu_val_def ireg_rv32_w_val_def ireg_rv32_wu_val_def
  ireg_rv32_h_val_def ireg_rv32_hu_val_def ireg_rv32_b_val_def ireg_rv32_bu_val_def

lemmas ireg_rv64_views =
  ireg_rv64_l_def ireg_rv64_lu_def ireg_rv64_x_def ireg_rv64_xu_def
  ireg_rv64_w_def ireg_rv64_wu_def ireg_rv64_h_def ireg_rv64_hu_def
  ireg_rv64_b_def ireg_rv64_bu_def

lemmas ireg_rv64_vals =
  ireg_rv64_l_val_def ireg_rv64_lu_val_def ireg_rv64_x_val_def ireg_rv64_xu_val_def
  ireg_rv64_w_val_def ireg_rv64_wu_val_def ireg_rv64_h_val_def ireg_rv64_hu_val_def
  ireg_rv64_b_val_def ireg_rv64_bu_val_def

lemma ireg_rv32_narrow:
  "ireg_rv32_h_val bo (ireg_rv32_assign bo v reg) = ucast v"
  "ireg_rv32_hu_val bo (ireg_rv32_assign bo v reg) = ucast v"
  "ireg_rv32_b_val bo (ireg_rv32_assign bo v reg) = ucast v"
  "ireg_rv32_bu_val bo (ireg_rv32_assign bo v reg) = ucast v"
  by (simp_all add: ireg_rv32_vals ireg_rv32_assign_def member_read_after_write_first
      ireg_rv32_views sizeof_def)

lemma ireg_rv64_narrow:
  "ireg_rv64_w_val bo (ireg_rv64_assign bo v reg) = ucast v"
  "ireg_rv64_wu_val bo (ireg_rv64_assign bo v reg) = ucast v"
  "ireg_rv64_h_val bo (ireg_rv64_assign bo v reg) = ucast v"
  "ireg_rv64_hu_val bo (ireg_rv64_assign bo v reg) = ucast v"
  "ireg_rv64_b_val bo (ireg_rv64_assign bo v reg) = ucast v"
  "ireg_rv64_bu_val bo (ireg_rv64_assign bo v reg) = ucast v"
  by (simp_all add: ireg_rv64_vals ireg_rv64_assign_def member_read_after_write_first
      ireg_rv64_views sizeof_def)

lemmas freg_fp32_views =
  freg_fp32_w_def freg_fp32_wu_def freg_fp32_x_def freg_fp32_xu_def freg_fp32_s_def

lemmas freg_fp32_vals =
  freg_fp32_w_val_def freg_fp32_wu_val_def freg_fp32_x_val_def freg_fp32_xu_val_def
  freg_fp32_s_val_def

lemmas freg_fp64_views =
  freg_fp64_l_def freg_fp64_lu_def freg_fp64_x_def freg_fp64_xu_def
  freg_fp64_d_def freg_fp64_s_def freg_fp64_w_def freg_fp64_wu_def

lemmas freg_fp64_vals =
  freg_fp64_l_val_def freg_fp64_lu_val_def freg_fp64_x_val_def freg_fp64_xu_val_def
  freg_fp64_d_val_def freg_fp64_s_val_def freg_fp64_w_val_def freg_fp64_wu_val_def

lemma member_read_zero [simp]: "member_read bo f s (memset_zero n) = 0"
  by (simp add: member_read_def memset_zero_def)

lemma ireg_rv32_ctor_views:
  "ireg_rv32_x_val bo (ireg_rv32_ctor bo) = 0" "ireg_rv32_xu_val bo (ireg_rv32_ctor bo) = 0"
  "ireg_rv32_w_val bo (ireg_rv32_ctor bo) = 0" "ireg_rv32_wu_val bo (ireg_rv32_ctor bo) = 0"
  "ireg_rv32_h_val bo (ireg_rv32_ctor bo) = 0" "ireg_rv32_hu_val bo (ireg_rv32_ctor bo) = 0"
  "ireg_rv32_b_val bo (ireg_rv32_ctor bo) = 0" "ireg_rv32_bu_val bo (ireg_rv32_ctor bo) = 0"
  by (simp_all add: ireg_rv32_vals ireg_rv32_ctor_def)

lemma ireg_rv64_ctor_views:
  "ireg_rv64_l_val bo (ireg_rv64_ctor bo) = 0" "ireg_rv64_lu_val bo (ireg_rv64_ctor bo) = 0"
  "ireg_rv64_x_val bo (ireg_rv64_ctor bo) = 0" "ireg_rv64_xu_val bo (ireg_rv64_ctor bo) = 0"
  "ireg_rv64_w_val bo (ireg_rv64_ctor bo) = 0" "ireg_rv64_wu_val bo (ireg_rv64_ctor bo) = 0"
  "ireg_rv64_h_val bo (ireg_rv64_ctor bo) = 0" "ireg_rv64_hu_val bo (ireg_rv64_ctor bo) = 0"
  "ireg_rv64_b_val bo (ireg_rv64_ctor bo) = 0" "ireg_rv64_bu_val bo (ireg_rv64_ctor bo) = 0"
  by (simp_all add: ireg_rv64_vals ireg_rv64_ctor_def)

lemma freg_fp32_ctor_views:
  "freg_fp32_w_val bo (freg_fp32_ctor bo) = 0" "freg_fp32_wu_val bo (freg_fp32_ctor bo) = 0"
  "freg_fp32_x_val bo (freg_fp32_ctor bo) = 0" "freg_fp32_xu_val bo (freg_fp32_ctor bo) = 0"
  "freg_fp32_s_val bo (freg_fp32_ctor bo) = 0"
  by (simp_all add: freg_fp32_vals freg_fp32_ctor_def)

lemma freg_fp64_ctor_views:
  "freg_fp64_l_val bo (freg_fp64_ctor bo) = 0" "freg_fp64_lu_val bo (freg_fp64_ctor bo) = 0"
  "freg_fp64_x_val bo (freg_fp64_ctor bo) = 0" "freg_fp64_xu_val bo (freg_fp64_ctor bo) = 0"
  "freg_fp64_d_val bo (freg_fp64_ctor bo) = 0" "freg_fp64_s_val bo (freg_fp64_ctor bo) = 0"
  "freg_fp64_w_val bo (freg_fp64_ctor bo) = 0" "freg_fp64_wu_val bo (freg_fp64_ctor bo) = 0"
  by (simp_all add: freg_fp64_vals freg_fp64_ctor_def)

lemma sizeof_union_r:
  "sizeof_union (ireg_rv32_r bo) = 4" "sizeof_union (ireg_rv64_r bo) = 8"
  "sizeof_union (freg_fp32_r bo) = 4" "sizeof_union (freg_fp64_r bo) = 8"
  by (simp_all add: ireg_rv32_r_def ireg_rv32_views ireg_rv64_r_def ireg_rv64_views
      freg_fp32_r_def freg_fp32_views freg_fp64_r_def freg_fp64_views sizeof_def)

lemma ctor_bytes:
  "ireg_rv32.r (ireg_rv32_ctor bo) = replicate 4 0" "ireg_rv64.r (ireg_rv64_ctor bo) = replicate 8 0"
  "freg_fp32.r (freg_fp32_ctor bo) = replicate 4 0" "freg_fp64.r (freg_fp64_ctor bo) = replicate 8 0"
  by (simp_all add: ireg_rv32_ctor_def ireg_rv64_ctor_def freg_fp32_ctor_def freg_fp64_ctor_def
      sizeof_union_r memset_zero_def)

lemma processor_ctor_fields:
  "pc (processor_ctor I ic F fc n) = 0"
  "ireg (processor_ctor I ic F fc n) = replicate ic I"
  "freg (processor_ctor I ic F fc n) = replicate fc F"
  "node_id (processor_ctor I ic F fc n) = 0"
  "hart_id (processor_ctor I ic F fc n) = 0"
  "log (processor_ctor I ic F fc n) = 0"
  "lr (processor_ctor I ic F fc n) = - 1"
  "badaddr (processor_ctor I ic F fc n) = 0"
  "env (processor_ctor I ic F fc n) = replicate n 0"
  "time (processor_ctor I ic F fc n) = 0"
  "cycle (processor_ctor I ic F fc n) = 0"
  "instret (processor_ctor I ic F fc n) = 0"
  "fcsr (processor_ctor I ic F fc n) = 0"
  by (simp_all add: processor_ctor_def ireg_count_def freg_count_def memset_zero_def)

lemma full_width_read_back:
  "ireg_rv32_x_val bo (ireg_rv32_assign bo v reg) = v"
  "ireg_rv32_w_val bo (ireg_rv32_assign bo v reg) = v"
  "ireg_rv64_x_val bo (ireg_rv64_assign bo u reg') = u"
  "ireg_rv64_l_val bo (ireg_rv64_assign bo u reg') = u"
  by (simp_all add: ireg_rv32_vals ireg_rv64_vals ireg_rv32_assign_def ireg_rv64_assign_def
      member_read_after_write_first ireg_rv32_views ireg_rv64_views sizeof_def)

lemma scast_to_wider:
  fixes w :: "'w::len word"
  assumes "LENGTH('w) \<le> LENGTH('p::len)"
  shows "sint (scast w :: 'p word) = sint w" and "ucast (scast w :: 'p word) = w"
proof -
  show "sint (scast w :: 'p word) = sint w"
    using assms by (simp add: sint_up_scast is_up)
  show "ucast (scast w :: 'p word) = w"
  proof (rule bit_word_eqI)
    fix n
    assume "n < LENGTH('w)"
    with assms have "min (LENGTH('w) - Suc 0) n = n"
      by simp
    with \<open>n < LENGTH('w)\<close> assms
    show "bit (ucast (scast w :: 'p word) :: 'w word) n \<longleftrightarrow> bit w n"
      by (simp add: bit_ucast_iff bit_signed_iff)
  qed
qed

lemma ireg_full_width_views_agree:
  "ireg_rv32_w_val bo reg32 = ireg_rv32_x_val bo reg32"
  "ireg_rv64_l_val bo reg64 = ireg_rv64_x_val bo reg64"
  by (simp_all add: ireg_rv32_vals ireg_rv32_views ireg_rv64_vals ireg_rv64_views)

lemma object_value_low_bits:
  fixes v :: "'w::len word"
  assumes "LENGTH('w) = 8 * sizeof TYPE('w word)" and "LENGTH('w) \<le> LENGTH('b::len)"
  shows "ucast (object_value LITTLE_ENDIAN (object_bytes LITTLE_ENDIAN v @ rest) :: 'b word) = v"
proof (rule bit_word_eqI)
  fix n
  assume n: "n < LENGTH('w)"
  with assms have d: "n div 8 < sizeof TYPE('w word)" "n < LENGTH('b)"
    by auto
  have "8 * (n div 8) + n mod 8 = n"
    by simp
  then show "bit (ucast (object_value LITTLE_ENDIAN (object_bytes LITTLE_ENDIAN v @ rest)
      :: 'b word) :: 'w word) n \<longleftrightarrow> bit v n"
    using n d
    by (simp add: bit_ucast_iff bit_object_value_LE nth_append nth_object_bytes_LE
        bit_drop_bit_eq)
qed

lemma object_value_zero_extend:
  fixes v :: "'w::len word"
  assumes "LENGTH('w) = 8 * sizeof TYPE('w word)"
  shows "(object_value LITTLE_ENDIAN (object_bytes LITTLE_ENDIAN v @ replicate k 0) :: 'b::len word)
    = ucast v"
proof (rule bit_word_eqI)
  fix n
  assume n: "n < LENGTH('b)"
  have split: "8 * (n div 8) + n mod 8 = n"
    by simp
  show "bit (object_value LITTLE_ENDIAN (object_bytes LITTLE_ENDIAN v @ replicate k 0) :: 'b word) n
    \<longleftrightarrow> bit (ucast v :: 'b word) n"
  proof (cases "n div 8 < sizeof TYPE('w word)")
    case True
    with split n show ?thesis
      by (simp add: bit_ucast_iff bit_object_value_LE nth_append nth_object_bytes_LE
          bit_drop_bit_eq)
  next
    case False
    with assms have "LENGTH('w) \<le> n"
      by auto
    then have "\<not> bit v n"
      by (simp add: bit_word_iff_drop_bit_and not_less bit_imp_le_length)
    with False n show ?thesis
      by (auto simp: bit_ucast_iff bit_object_value_LE nth_append)
  qed
qed

lemma freg_fp64_s_assign_bytes:
  assumes "length (freg_fp64.r reg) = 8"
  shows "freg_fp64.r (freg_fp64_s_assign LITTLE_ENDIAN v reg)
      = object_bytes LITTLE_ENDIAN v @ drop 4 (freg_fp64.r reg)"
    and "freg_fp64.r (freg_fp64_s_assign BIG_ENDIAN v reg)
      = take 4 (freg_fp64.r reg) @ object_bytes BIG_ENDIAN v"
  using assms
  by (simp_all add: freg_fp64_s_assign_def member_write_def freg_fp64_s_def sizeof_def)

lemma freg_fp64_s_assign_low_bits:
  assumes "length (freg_fp64.r reg) = 8"
  shows "ucast (member_read bo val [(val, 8, 1)] (freg_fp64.r (freg_fp64_s_assign bo v reg)) :: 64 word)
    = v"
proof (cases bo)
  case LITTLE_ENDIAN
  have "length (object_bytes LITTLE_ENDIAN v @ drop 4 (freg_fp64.r reg)) = 8"
    using assms by (simp add: sizeof_def)
  then show ?thesis
    using assms LITTLE_ENDIAN
    by (simp add: freg_fp64_s_assign_bytes member_read_def sizeof_def
        object_value_low_bits [where 'w = 32 and 'b = 64])
next
  case BIG_ENDIAN
  have "length (take 4 (freg_fp64.r reg) @ object_bytes BIG_ENDIAN v) = 8"
    using assms by (simp add: sizeof_def)
  then show ?thesis
    using assms BIG_ENDIAN
    by (simp add: freg_fp64_s_assign_bytes member_read_def sizeof_def object_value_BE
        object_bytes_BE object_value_low_bits [where 'w = 32 and 'b = 64])
qed

lemma freg_fp64_s_assign_fresh:
  "member_read bo val [(val, 8, 1)] (freg_fp64.r (freg_fp64_s_assign bo v (freg_fp64_ctor bo)))
     = (ucast v :: 64 word)"
proof (cases bo)
  case LITTLE_ENDIAN
  then show ?thesis
    by (simp add: freg_fp64_s_assign_bytes ctor_bytes member_read_def sizeof_def
        object_value_zero_extend [where 'w = 32 and 'b = 64 and k = 4, simplified])
next
  case BIG_ENDIAN
  then show ?thesis
    by (simp add: freg_fp64_s_assign_bytes ctor_bytes member_read_def sizeof_def object_value_BE
        object_bytes_BE object_value_zero_extend [where 'w = 32 and 'b = 64 and k = 4, simplified])
qed

lemma memset_zero_8: "memset_zero 8 = [0, 0, 0, 0, 0, 0, 0, 0]"
  by (simp add: memset_zero_def eval_nat_numeral)

section \<open>Register views\<close>

lemma narrow_view_offsets_LE:
  "map (offsetof val)
     [ireg_rv32_h LITTLE_ENDIAN, ireg_rv32_hu LITTLE_ENDIAN, ireg_rv32_b LITTLE_ENDIAN,
      ireg_rv32_bu LITTLE_ENDIAN, ireg_rv64_w LITTLE_ENDIAN, ireg_rv64_wu LITTLE_ENDIAN,
      ireg_rv64_h LITTLE_ENDIAN, ireg_rv64_hu LITTLE_ENDIAN, ireg_rv64_b LITTLE_ENDIAN,
      ireg_rv64_bu LITTLE_ENDIAN] = [0, 0, 0, 0, 0, 0, 0, 0, 0, 0]"
  "map (offsetof pad)
     [ireg_rv32_h LITTLE_ENDIAN, ireg_rv32_hu LITTLE_ENDIAN, ireg_rv32_b LITTLE_ENDIAN,
      ireg_rv32_bu LITTLE_ENDIAN, ireg_rv64_w LITTLE_ENDIAN, ireg_rv64_wu LITTLE_ENDIAN,
      ireg_rv64_h LITTLE_ENDIAN, ireg_rv64_hu LITTLE_ENDIAN, ireg_rv64_b LITTLE_ENDIAN,
      ireg_rv64_bu LITTLE_ENDIAN] = [2, 2, 1, 1, 4, 4, 2, 2, 1, 1]"
  by (simp_all add: ireg_rv32_views ireg_rv64_views sizeof_def)

lemma narrow_view_offsets_BE:
  "map (offsetof pad)
     [ireg_rv32_h BIG_ENDIAN, ireg_rv32_hu BIG_ENDIAN, ireg_rv32_b BIG_ENDIAN,
      ireg_rv32_bu BIG_ENDIAN, ireg_rv64_w BIG_ENDIAN, ireg_rv64_wu BIG_ENDIAN,
      ireg_rv64_h BIG_ENDIAN, ireg_rv64_hu BIG_ENDIAN, ireg_rv64_b BIG_ENDIAN,
      ireg_rv64_bu BIG_ENDIAN] = [0, 0, 0, 0, 0, 0, 0, 0, 0, 0]"
  "map (offsetof val)
     [ireg_rv32_h BIG_ENDIAN, ireg_rv32_hu BIG_ENDIAN, ireg_rv32_b BIG_ENDIAN,
      ireg_rv32_bu BIG_ENDIAN, ireg_rv64_w BIG_ENDIAN, ireg_rv64_wu BIG_ENDIAN,
      ireg_rv64_h BIG_ENDIAN, ireg_rv64_hu BIG_ENDIAN, ireg_rv64_b BIG_ENDIAN,
      ireg_rv64_bu BIG_ENDIAN] = [2, 2, 3, 3, 4, 4, 6, 6, 7, 7]"
  by (simp_all add: ireg_rv32_views ireg_rv64_views sizeof_def)

lemma narrow_view_ends_BE:
  "offsetof val (ireg_rv32_h BIG_ENDIAN) + sizeof TYPE(s16) = sizeof_union (ireg_rv32_r BIG_ENDIAN)"
  "offsetof val (ireg_rv32_hu BIG_ENDIAN) + sizeof TYPE(u16) = sizeof_union (ireg_rv32_r BIG_ENDIAN)"
  "offsetof val (ireg_rv32_b BIG_ENDIAN) + sizeof TYPE(s8) = sizeof_union (ireg_rv32_r BIG_ENDIAN)"
  "offsetof val (ireg_rv32_bu BIG_ENDIAN) + sizeof TYPE(u8) = sizeof_union (ireg_rv32_r BIG_ENDIAN)"
  "offsetof val (ireg_rv64_w BIG_ENDIAN) + sizeof TYPE(s32) = sizeof_union (ireg_rv64_r BIG_ENDIAN)"
  "offsetof val (ireg_rv64_wu BIG_ENDIAN) + sizeof TYPE(u32) = sizeof_union (ireg_rv64_r BIG_ENDIAN)"
  "offsetof val (ireg_rv64_h BIG_ENDIAN) + sizeof TYPE(s16) = sizeof_union (ireg_rv64_r BIG_ENDIAN)"
  "offsetof val (ireg_rv64_hu BIG_ENDIAN) + sizeof TYPE(u16) = sizeof_union (ireg_rv64_r BIG_ENDIAN)"
  "offsetof val (ireg_rv64_b BIG_ENDIAN) + sizeof TYPE(s8) = sizeof_union (ireg_rv64_r BIG_ENDIAN)"
  "offsetof val (ireg_rv64_bu BIG_ENDIAN) + sizeof TYPE(u8) = sizeof_union (ireg_rv64_r BIG_ENDIAN)"
  by (simp_all add: ireg_rv32_views ireg_rv64_views sizeof_union_r sizeof_def)

text \<open>
  Claim C1. For every native value, on both integer register variants and on both byte
  orders: after the value is assigned through the full-width view, every narrower view
  (16 and 8 bits on RV32; 32, 16 and 8 bits on RV64; signed and unsigned) reads the
  truncation of the value to the view's width. On a little-endian host the value of a
  narrow view is at offset 0 of the cell and its padding follows it; on a big-endian
  host the padding is at offset 0 and the value ends where the cell ends.
\<close>

theorem narrow_views_read_truncation:
  "(ireg_rv32_h_val bo (ireg_rv32_assign bo v reg32) = ucast v
    \<and> ireg_rv32_hu_val bo (ireg_rv32_assign bo v reg32) = ucast v
    \<and> ireg_rv32_b_val bo (ireg_rv32_assign bo v reg32) = ucast v
    \<and> ireg_rv32_bu_val bo (ireg_rv32_assign bo v reg32) = ucast v)
   \<and> (ireg_rv64_w_val bo (ireg_rv64_assign bo u reg64) = ucast u
    \<and> ireg_rv64_wu_val bo (ireg_rv64_assign bo u reg64) = ucast u
    \<and> ireg_rv64_h_val bo (ireg_rv64_assign bo u reg64) = ucast u
    \<and> ireg_rv64_hu_val bo (ireg_rv64_assign bo u reg64) = ucast u
    \<and> ireg_rv64_b_val bo (ireg_rv64_assign bo u reg64) = ucast u
    \<and> ireg_rv64_bu_val bo (ireg_rv64_assign bo u reg64) = ucast u)
   \<and> (map (offsetof val)
        [ireg_rv32_h LITTLE_ENDIAN, ireg_rv32_hu LITTLE_ENDIAN, ireg_rv32_b LITTLE_ENDIAN,
         ireg_rv32_bu LITTLE_ENDIAN, ireg_rv64_w LITTLE_ENDIAN, ireg_rv64_wu LITTLE_ENDIAN,
         ireg_rv64_h LITTLE_ENDIAN, ireg_rv64_hu LITTLE_ENDIAN, ireg_rv64_b LITTLE_ENDIAN,
         ireg_rv64_bu LITTLE_ENDIAN] = [0, 0, 0, 0, 0, 0, 0, 0, 0, 0]
    \<and> map (offsetof pad)
        [ireg_rv32_h LITTLE_ENDIAN, ireg_rv32_hu LITTLE_ENDIAN, ireg_rv32_b LITTLE_ENDIAN,
         ireg_rv32_bu LITTLE_ENDIAN, ireg_rv64_w LITTLE_ENDIAN, ireg_rv64_wu LITTLE_ENDIAN,
         ireg_rv64_h LITTLE_ENDIAN, ireg_rv64_hu LITTLE_ENDIAN, ireg_rv64_b LITTLE_ENDIAN,
         ireg_rv64_bu LITTLE_ENDIAN] = [2, 2, 1, 1, 4, 4, 2, 2, 1, 1])
   \<and> (map (offsetof pad)
        [ireg_rv32_h BIG_ENDIAN, ireg_rv32_hu BIG_ENDIAN, ireg_rv32_b BIG_ENDIAN,
         ireg_rv32_bu BIG_ENDIAN, ireg_rv64_w BIG_ENDIAN, ireg_rv64_wu BIG_ENDIAN,
         ireg_rv64_h BIG_ENDIAN, ireg_rv64_hu BIG_ENDIAN, ireg_rv64_b BIG_ENDIAN,
         ireg_rv64_bu BIG_ENDIAN] = [0, 0, 0, 0, 0, 0, 0, 0, 0, 0]
    \<and> offsetof val (ireg_rv32_h BIG_ENDIAN) + sizeof TYPE(s16) = sizeof_union (ireg_rv32_r BIG_ENDIAN)
    \<and> offsetof val (ireg_rv32_hu BIG_ENDIAN) + sizeof TYPE(u16) = sizeof_union (ireg_rv32_r BIG_ENDIAN)
    \<and> offsetof val (ireg_rv32_b BIG_ENDIAN) + sizeof TYPE(s8) = sizeof_union (ireg_rv32_r BIG_ENDIAN)
    \<and> offsetof val (ireg_rv32_bu BIG_ENDIAN) + sizeof TYPE(u8) = sizeof_union (ireg_rv32_r BIG_ENDIAN)
    \<and> offsetof val (ireg_rv64_w BIG_ENDIAN) + sizeof TYPE(s32) = sizeof_union (ireg_rv64_r BIG_ENDIAN)
    \<and> offsetof val (ireg_rv64_wu BIG_ENDIAN) + sizeof TYPE(u32) = sizeof_union (ireg_rv64_r BIG_ENDIAN)
    \<and> offsetof val (ireg_rv64_h BIG_ENDIAN) + sizeof TYPE(s16) = sizeof_union (ireg_rv64_r BIG_ENDIAN)
    \<and> offsetof val (ireg_rv64_hu BIG_ENDIAN) + sizeof TYPE(u16) = sizeof_union (ireg_rv64_r BIG_ENDIAN)
    \<and> offsetof val (ireg_rv64_b BIG_ENDIAN) + sizeof TYPE(s8) = sizeof_union (ireg_rv64_r BIG_ENDIAN)
    \<and> offsetof val (ireg_rv64_bu BIG_ENDIAN) + sizeof TYPE(u8) = sizeof_union (ireg_rv64_r BIG_ENDIAN))"
  by (simp only: ireg_rv32_narrow ireg_rv64_narrow narrow_view_offsets_LE narrow_view_offsets_BE
      narrow_view_ends_BE simp_thms)

text \<open>
  Claim C5, as the code has it. For every 32-bit pattern \<open>b\<close> and both byte orders,
  writing \<open>b\<close> through the single-precision view of an FP64 register and reading the
  full 64-bit width as an integer shows \<open>b\<close> in the low-order 32 bits of that integer
  (and, on a freshly constructed register, nothing else). The bytes of the
  single-precision view are at offset 0 of the cell on a little-endian host and at
  offset 4 on a big-endian one, the same bytes as those of the 32-bit integer views.
\<close>

theorem fp64_single_view_low_order:
  "(length (freg_fp64.r reg) = sizeof_union (freg_fp64_r bo) \<longrightarrow>
      ucast (freg_fp64_xu_val bo (freg_fp64_s_assign bo b reg)) = b
      \<and> ucast (freg_fp64_lu_val bo (freg_fp64_s_assign bo b reg)) = b
      \<and> ucast (freg_fp64_x_val bo (freg_fp64_s_assign bo b reg)) = b
      \<and> ucast (freg_fp64_l_val bo (freg_fp64_s_assign bo b reg)) = b)
   \<and> freg_fp64_xu_val bo (freg_fp64_s_assign bo b (freg_fp64_ctor bo)) = ucast b
   \<and> offsetof val (freg_fp64_s bo) = (if bo = LITTLE_ENDIAN then 0 else 4)
   \<and> offsetof val (freg_fp64_w bo) = offsetof val (freg_fp64_s bo)
   \<and> offsetof val (freg_fp64_wu bo) = offsetof val (freg_fp64_s bo)"
  by (simp add: freg_fp64_vals freg_fp64_views sizeof_union_r sizeof_def
      freg_fp64_s_assign_low_bits [simplified] freg_fp64_s_assign_fresh [simplified])

theorem fp64_single_view_low_order_witness:
  "length (freg_fp64.r \<lparr>r = [1, 2, 3, 4, 5, 6, 7, 8]\<rparr>) = sizeof_union (freg_fp64_r BIG_ENDIAN)
   \<and> freg_fp64_xu_val BIG_ENDIAN
        (freg_fp64_s_assign BIG_ENDIAN 0x3F800000 \<lparr>r = [1, 2, 3, 4, 5, 6, 7, 8]\<rparr>)
       = 0x010203043F800000
   \<and> (ucast (0x010203043F800000 :: u64) :: u32) = 0x3F800000"
  using fp64_single_view_low_order [of "\<lparr>r = [1, 2, 3, 4, 5, 6, 7, 8]\<rparr>" BIG_ENDIAN "0x3F800000"]
  by (simp add: sizeof_union_r freg_fp64_xu_val_def freg_fp64_xu_def freg_fp64_s_assign_def
      freg_fp64_s_def member_write_def member_read_def object_bytes_def object_value_def
      word_rcat_def sizeof_def upt_rec)

text \<open>
  On a big-endian host the pattern is not in the high-order 32 bits of the 64-bit
  integer: written into a fresh register, 0x3F800000 reads back as 0x000000003F800000.
\<close>

theorem fp64_single_view_big_endian_counterexample:
  "freg_fp64_xu_val BIG_ENDIAN
       (freg_fp64_s_assign BIG_ENDIAN 0x3F800000 (freg_fp64_ctor BIG_ENDIAN))
     = 0x000000003F800000
   \<and> drop_bit 32 (freg_fp64_xu_val BIG_ENDIAN
       (freg_fp64_s_assign BIG_ENDIAN 0x3F800000 (freg_fp64_ctor BIG_ENDIAN))) \<noteq> 0x3F800000
   \<and> freg_fp64_xu_val BIG_ENDIAN
       (freg_fp64_s_assign BIG_ENDIAN 0x3F800000 (freg_fp64_ctor BIG_ENDIAN))
     \<noteq> 0x3F80000000000000"
  by (simp add: freg_fp64_ctor_def sizeof_union_r memset_zero_8 freg_fp64_xu_val_def
      freg_fp64_xu_def freg_fp64_s_assign_def freg_fp64_s_def member_write_def member_read_def object_bytes_def object_value_def
      word_rcat_def sizeof_def upt_rec)

text \<open>
  Claim C6. Writing through the single-precision view of an FP64 register changes only
  the four bytes of that view: the register keeps its size, the pad word of the view
  reads as before, every byte outside the view's byte range is unchanged, and the view
  reads the written value.
\<close>

theorem fp64_single_write_frame:
  "length (freg_fp64.r reg) = sizeof_union (freg_fp64_r bo) \<Longrightarrow>
     length (freg_fp64.r (freg_fp64_s_assign bo v reg)) = length (freg_fp64.r reg)
     \<and> freg_fp64_s_pad bo (freg_fp64_s_assign bo v reg) = freg_fp64_s_pad bo reg
     \<and> (\<forall>i < length (freg_fp64.r reg).
          \<not> (offsetof val (freg_fp64_s bo) \<le> i
              \<and> i < offsetof val (freg_fp64_s bo) + sizeof TYPE(f32)) \<longrightarrow>
          freg_fp64.r (freg_fp64_s_assign bo v reg) ! i = freg_fp64.r reg ! i)
     \<and> freg_fp64_s_val bo (freg_fp64_s_assign bo v reg) = v"
proof -
  assume "length (freg_fp64.r reg) = sizeof_union (freg_fp64_r bo)"
  then have len: "length (freg_fp64.r reg) = 8"
    by (simp add: sizeof_union_r)
  have f32_bytes: "object_value bo (object_bytes bo v) = v"
    using object_value_take_LE [of 4 v, where 'b = 32] object_value_take_BE [of 4 v, where 'b = 32]
    by (cases bo) (simp_all add: sizeof_def)
  show ?thesis
  proof (cases bo)
    case LITTLE_ENDIAN
    with len f32_bytes show ?thesis
      by (simp add: freg_fp64_s_assign_bytes freg_fp64_s_pad_def freg_fp64_s_val_def
          member_read_def freg_fp64_s_def sizeof_def nth_append)
  next
    case BIG_ENDIAN
    with len f32_bytes show ?thesis
      by (simp add: freg_fp64_s_assign_bytes freg_fp64_s_pad_def freg_fp64_s_val_def
          member_read_def freg_fp64_s_def sizeof_def nth_append)
  qed
qed

theorem fp64_single_write_frame_witness:
  "length (freg_fp64.r \<lparr>r = [1, 2, 3, 4, 5, 6, 7, 8]\<rparr>) = sizeof_union (freg_fp64_r BIG_ENDIAN)
   \<and> freg_fp64.r (freg_fp64_s_assign BIG_ENDIAN 0xAABBCCDD \<lparr>r = [1, 2, 3, 4, 5, 6, 7, 8]\<rparr>)
       = [1, 2, 3, 4, 0xAA, 0xBB, 0xCC, 0xDD]
   \<and> freg_fp64_s_pad BIG_ENDIAN
        (freg_fp64_s_assign BIG_ENDIAN 0xAABBCCDD \<lparr>r = [1, 2, 3, 4, 5, 6, 7, 8]\<rparr>)
       = freg_fp64_s_pad BIG_ENDIAN \<lparr>r = [1, 2, 3, 4, 5, 6, 7, 8]\<rparr>
   \<and> freg_fp64_s_pad BIG_ENDIAN \<lparr>r = [1, 2, 3, 4, 5, 6, 7, 8]\<rparr> = 0x01020304"
  using fp64_single_write_frame [of "\<lparr>r = [1, 2, 3, 4, 5, 6, 7, 8]\<rparr>" BIG_ENDIAN "0xAABBCCDD"]
  by (simp add: sizeof_union_r freg_fp64_s_pad_def freg_fp64_s_assign_def
      freg_fp64_s_def member_write_def member_read_def object_bytes_def object_value_def
      word_rcat_def sizeof_def upt_rec)

text \<open>
  Claim C7. Where the host's pointers are at least as wide as the register, the
  pointer conversion of the RV32 register (\<^verbatim>\<open>operator s32*\<close>) and the conversion
  \<^verbatim>\<open>operator s64*\<close> of the RV64 register yield an address equal, as a signed number,
  to the register's value, from which every stored bit is read back: nothing is
  truncated.
\<close>

theorem pointer_conversion_exposes_bits:
  "(32 \<le> LENGTH('p::len) \<longrightarrow>
      sint (ireg_rv32_to_s32_ptr bo reg32 :: 'p word) = sint (ireg_rv32_to_s32 bo reg32)
      \<and> sint (ireg_rv32_to_s32_ptr bo (ireg_rv32_assign bo v32 reg32) :: 'p word) = sint v32
      \<and> ucast (ireg_rv32_to_s32_ptr bo (ireg_rv32_assign bo v32 reg32) :: 'p word) = v32)
   \<and> (64 \<le> LENGTH('p) \<longrightarrow>
      sint (ireg_rv64_to_s64_ptr bo reg64 :: 'p word) = sint (ireg_rv64_to_s64 bo reg64)
      \<and> sint (ireg_rv64_to_s64_ptr bo (ireg_rv64_assign bo v64 reg64) :: 'p word) = sint v64
      \<and> ucast (ireg_rv64_to_s64_ptr bo (ireg_rv64_assign bo v64 reg64) :: 'p word) = v64)"
  by (simp add: ireg_rv32_to_s32_ptr_def ireg_rv32_to_s32_def ireg_rv64_to_s64_ptr_def
      ireg_rv64_to_s64_def ireg_full_width_views_agree full_width_read_back
      scast_to_wider [where 'w = 32 and 'p = 'p] scast_to_wider [where 'w = 64 and 'p = 'p])

theorem pointer_conversion_exposes_bits_witness:
  "32 \<le> LENGTH(64) \<and> 64 \<le> LENGTH(64)
   \<and> (ireg_rv32_to_s32_ptr LITTLE_ENDIAN
         (ireg_rv32_assign LITTLE_ENDIAN 0x80001000 (ireg_rv32_ctor LITTLE_ENDIAN)) :: 64 word)
       = 0xFFFFFFFF80001000
   \<and> sint (ireg_rv32_to_s32_ptr LITTLE_ENDIAN
         (ireg_rv32_assign LITTLE_ENDIAN 0x80001000 (ireg_rv32_ctor LITTLE_ENDIAN)) :: 64 word)
       = sint (0x80001000 :: s32)
   \<and> ucast (ireg_rv64_to_s64_ptr BIG_ENDIAN
         (ireg_rv64_assign BIG_ENDIAN 0x123456789ABCDEF0 (ireg_rv64_ctor BIG_ENDIAN)) :: 64 word)
       = (0x123456789ABCDEF0 :: s64)"
  using pointer_conversion_exposes_bits [where 'p = 64 and bo = LITTLE_ENDIAN
      and ?v32.0 = "0x80001000" and ?reg32.0 = "ireg_rv32_ctor LITTLE_ENDIAN"]
    pointer_conversion_exposes_bits [where 'p = 64 and bo = BIG_ENDIAN
      and ?v64.0 = "0x123456789ABCDEF0" and ?reg64.0 = "ireg_rv64_ctor BIG_ENDIAN"]
  by (simp add: ireg_rv32_to_s32_ptr_def full_width_read_back)

text \<open>
  The other conversion of the RV64 register, \<^verbatim>\<open>operator s32*\<close>, converts the 32-bit
  view and so yields the low 32 bits of the stored value, sign-extended.
\<close>

lemma ireg_rv64_to_s32_ptr_truncates:
  "(ireg_rv64_to_s32_ptr bo (ireg_rv64_assign bo v reg) :: 'p::len word) = scast (ucast v :: s32)"
  by (simp add: ireg_rv64_to_s32_ptr_def ireg_rv64_narrow)

section \<open>Construction and dimensions\<close>

text \<open>
  Claim C2. A default-constructed register of any of the four kinds holds zero bytes
  only and reads 0 through every view, on both byte orders. A default-constructed
  processor state of either configuration has program counter, node id, hart id, log
  flags, fault address, time, cycle, instret and fcsr equal to 0 and all 32 integer and
  32 floating-point registers default-constructed; its load reservation has every bit
  set.
\<close>

theorem default_construction_zero:
  "(ireg_rv32.r (ireg_rv32_ctor bo) = replicate 4 0
    \<and> ireg_rv32_x_val bo (ireg_rv32_ctor bo) = 0 \<and> ireg_rv32_xu_val bo (ireg_rv32_ctor bo) = 0
    \<and> ireg_rv32_w_val bo (ireg_rv32_ctor bo) = 0 \<and> ireg_rv32_wu_val bo (ireg_rv32_ctor bo) = 0
    \<and> ireg_rv32_h_val bo (ireg_rv32_ctor bo) = 0 \<and> ireg_rv32_hu_val bo (ireg_rv32_ctor bo) = 0
    \<and> ireg_rv32_b_val bo (ireg_rv32_ctor bo) = 0 \<and> ireg_rv32_bu_val bo (ireg_rv32_ctor bo) = 0)
   \<and> (ireg_rv64.r (ireg_rv64_ctor bo) = replicate 8 0
    \<and> ireg_rv64_l_val bo (ireg_rv64_ctor bo) = 0 \<and> ireg_rv64_lu_val bo (ireg_rv64_ctor bo) = 0
    \<and> ireg_rv64_x_val bo (ireg_rv64_ctor bo) = 0 \<and> ireg_rv64_xu_val bo (ireg_rv64_ctor bo) = 0
    \<and> ireg_rv64_w_val bo (ireg_rv64_ctor bo) = 0 \<and> ireg_rv64_wu_val bo (ireg_rv64_ctor bo) = 0
    \<and> ireg_rv64_h_val bo (ireg_rv64_ctor bo) = 0 \<and> ireg_rv64_hu_val bo (ireg_rv64_ctor bo) = 0
    \<and> ireg_rv64_b_val bo (ireg_rv64_ctor bo) = 0 \<and> ireg_rv64_bu_val bo (ireg_rv64_ctor bo) = 0)
   \<and> (freg_fp32.r (freg_fp32_ctor bo) = replicate 4 0
    \<and> freg_fp32_w_val bo (freg_fp32_ctor bo) = 0 \<and> freg_fp32_wu_val bo (freg_fp32_ctor bo) = 0
    \<and> freg_fp32_x_val bo (freg_fp32_ctor bo) = 0 \<and> freg_fp32_xu_val bo (freg_fp32_ctor bo) = 0
    \<and> freg_fp32_s_val bo (freg_fp32_ctor bo) = 0)
   \<and> (freg_fp64.r (freg_fp64_ctor bo) = replicate 8 0
    \<and> freg_fp64_l_val bo (freg_fp64_ctor bo) = 0 \<and> freg_fp64_lu_val bo (freg_fp64_ctor bo) = 0
    \<and> freg_fp64_x_val bo (freg_fp64_ctor bo) = 0 \<and> freg_fp64_xu_val bo (freg_fp64_ctor bo) = 0
    \<and> freg_fp64_d_val bo (freg_fp64_ctor bo) = 0 \<and> freg_fp64_s_val bo (freg_fp64_ctor bo) = 0
    \<and> freg_fp64_w_val bo (freg_fp64_ctor bo) = 0 \<and> freg_fp64_wu_val bo (freg_fp64_ctor bo) = 0)
   \<and> (pc (processor_rv32imafd bo n) = 0
    \<and> ireg (processor_rv32imafd bo n) = replicate 32 (ireg_rv32_ctor bo)
    \<and> freg (processor_rv32imafd bo n) = replicate 32 (freg_fp64_ctor bo)
    \<and> node_id (processor_rv32imafd bo n) = 0 \<and> hart_id (processor_rv32imafd bo n) = 0
    \<and> log (processor_rv32imafd bo n) = 0 \<and> badaddr (processor_rv32imafd bo n) = 0
    \<and> time (processor_rv32imafd bo n) = 0 \<and> cycle (processor_rv32imafd bo n) = 0
    \<and> instret (processor_rv32imafd bo n) = 0 \<and> fcsr (processor_rv32imafd bo n) = 0
    \<and> lr (processor_rv32imafd bo n) = - 1 \<and> NOT (lr (processor_rv32imafd bo n)) = 0
    \<and> unat (lr (processor_rv32imafd bo n)) = 2 ^ 32 - 1)
   \<and> (pc (processor_rv64imafd bo n) = 0
    \<and> ireg (processor_rv64imafd bo n) = replicate 32 (ireg_rv64_ctor bo)
    \<and> freg (processor_rv64imafd bo n) = replicate 32 (freg_fp64_ctor bo)
    \<and> node_id (processor_rv64imafd bo n) = 0 \<and> hart_id (processor_rv64imafd bo n) = 0
    \<and> log (processor_rv64imafd bo n) = 0 \<and> badaddr (processor_rv64imafd bo n) = 0
    \<and> time (processor_rv64imafd bo n) = 0 \<and> cycle (processor_rv64imafd bo n) = 0
    \<and> instret (processor_rv64imafd bo n) = 0 \<and> fcsr (processor_rv64imafd bo n) = 0
    \<and> lr (processor_rv64imafd bo n) = - 1 \<and> NOT (lr (processor_rv64imafd bo n)) = 0
    \<and> unat (lr (processor_rv64imafd bo n)) = 2 ^ 64 - 1)"
  by (simp add: ireg_rv32_ctor_views ireg_rv64_ctor_views freg_fp32_ctor_views
      freg_fp64_ctor_views ctor_bytes processor_ctor_fields processor_rv32imafd_def
      processor_rv64imafd_def unsigned_minus_1_eq_mask mask_eq_exp_minus_1)

text \<open>
  Claim C3. The dimensions that the two configurations derive from their template
  arguments: \<open>xlen\<close> is 32 for \<open>processor_rv32imafd\<close> and 64 for
  \<open>processor_rv64imafd\<close>, both have 32 integer and 32 floating-point registers, the
  register arrays of a constructed state have these lengths, and the floating-point
  registers of both are \<open>freg_fp64\<close> registers, of 64 bits.
\<close>

theorem derived_constants:
  "processor_rv32imafd_xlen = 32 \<and> processor_rv32imafd_ireg_count = 32
   \<and> processor_rv32imafd_freg_count = 32
   \<and> processor_rv64imafd_xlen = 64 \<and> processor_rv64imafd_ireg_count = 32
   \<and> processor_rv64imafd_freg_count = 32
   \<and> length (ireg (processor_rv32imafd bo n)) = processor_rv32imafd_ireg_count
   \<and> length (freg (processor_rv32imafd bo n)) = processor_rv32imafd_freg_count
   \<and> length (ireg (processor_rv64imafd bo n)) = processor_rv64imafd_ireg_count
   \<and> length (freg (processor_rv64imafd bo n)) = processor_rv64imafd_freg_count
   \<and> freg (processor_rv32imafd bo n) = replicate 32 (freg_fp64_ctor bo)
   \<and> freg (processor_rv64imafd bo n) = replicate 32 (freg_fp64_ctor bo)
   \<and> freg_fp64_flen = 64 \<and> sizeof_union (freg_fp64_r bo) = sizeof TYPE(f64)"
  by (simp add: processor_rv32imafd_xlen_def processor_rv64imafd_xlen_def xlen_def sizeof_def
      processor_rv32imafd_ireg_count_def processor_rv32imafd_freg_count_def
      processor_rv64imafd_ireg_count_def processor_rv64imafd_freg_count_def
      ireg_count_def freg_count_def processor_rv32imafd_def processor_rv64imafd_def
      processor_ctor_fields freg_fp64_flen_def sizeof_union_r)

text \<open>
  Claim C4. On a little-endian host, in a freshly constructed 64-bit configuration:
  after \<^verbatim>\<open>ireg[5] = -1\<close> the view \<^verbatim>\<open>ireg[5].r.bu.val\<close> reads 255, and after
  \<^verbatim>\<open>pc = 0x80000000\<close> the program counter reads 0x80000000 as an unsigned 64-bit value.
\<close>

theorem scenario_rv64_little_endian:
  "Option.bind (mutate (Modify_ireg 5 (ireg_rv64_assign LITTLE_ENDIAN (- 1)))
        (processor_rv64imafd LITTLE_ENDIAN n))
      (\<lambda>p. map_option (\<lambda>reg. unat (ireg_rv64_bu_val LITTLE_ENDIAN reg)) (array_get (ireg p) 5))
     = Some 255
   \<and> map_option (\<lambda>p. unat (pc p))
        (mutate (Set_pc 0x80000000) (processor_rv64imafd LITTLE_ENDIAN n))
     = Some 0x80000000"
  by (simp add: processor_rv64imafd_def processor_ctor_fields array_modify_def array_get_def
      ireg_rv64_narrow unsigned_minus_1_eq_mask mask_eq_exp_minus_1)

section \<open>Processor state fields\<close>

lemma align_up_ge: "pos \<le> align_up al pos"
proof (cases "al = 0")
  case True
  then show ?thesis by (simp add: align_up_def)
next
  case False
  then have "pos + al - 1 < ((pos + al - 1) div al) * al + al"
    using div_mult_mod_eq [of "pos + al - 1" al] mod_less_divisor [of al "pos + al - 1"]
    by linarith
  with False show ?thesis
    by (simp add: align_up_def)
qed

lemma members_end_ge: "pos \<le> members_end pos ds"
proof (induction ds arbitrary: pos)
  case Nil
  then show ?case by simp
next
  case (Cons d ds)
  obtain g sz al n where d: "d = (g, sz, al, n)"
    by (cases d)
  have "pos \<le> align_up al pos + sz * n"
    using align_up_ge [of pos al] by simp
  also have "\<dots> \<le> members_end (align_up al pos + sz * n) ds"
    by (rule Cons.IH)
  finally show ?case
    by (simp add: d)
qed

lemma member_within:
  "member_offset pos ds m = Some off \<Longrightarrow> member_extent ds m = Some (sz, n) \<Longrightarrow>
     pos \<le> off \<and> off + sz * n \<le> members_end pos ds"
proof (induction ds arbitrary: pos)
  case Nil
  then show ?case by simp
next
  case (Cons d ds)
  obtain g sz' al n' where d: "d = (g, sz', al, n')"
    by (cases d)
  show ?case
  proof (cases "m = g")
    case True
    with Cons.prems d have "off = align_up al pos" "sz = sz'" "n = n'"
      by simp_all
    then show ?thesis
      using align_up_ge [of pos al] members_end_ge [of "align_up al pos + sz' * n'" ds]
      by (simp add: d)
  next
    case False
    with Cons.prems d have "member_offset (align_up al pos + sz' * n') ds m = Some off"
      "member_extent ds m = Some (sz, n)"
      by simp_all
    from Cons.IH [OF this] show ?thesis
      using align_up_ge [of pos al] by (simp add: d)
  qed
qed

lemma obj_element_within:
  assumes "obj_element ds base m i = Some (addr, sz)"
  shows "base \<le> addr \<and> addr + sz \<le> base + sizeof_members ds"
proof -
  from assms obtain off n where off: "member_offset 0 ds m = Some off"
    and ext: "member_extent ds m = Some (sz, n)" and i: "i < n" and addr: "addr = base + off + sz * i"
    by (auto simp: obj_element_def split: option.splits if_splits)
  from member_within [OF off ext] have "off + sz * n \<le> members_end 0 ds"
    by simp
  moreover have "sz * i + sz \<le> sz * n"
  proof -
    from i have "sz * Suc i \<le> sz * n"
      by (intro mult_le_mono2) simp
    then show ?thesis
      by simp
  qed
  moreover have "members_end 0 ds \<le> sizeof_members ds"
    by (simp add: sizeof_members_def align_up_ge)
  ultimately show ?thesis
    using addr by simp
qed

lemma mem_write_outside:
  "x < addr \<or> addr + length bytes \<le> x \<Longrightarrow> mem_write addr bytes mem x = mem x"
  by (auto simp: mem_write_def)

lemma mem_read_write_same: "mem_read (mem_write addr bytes mem) addr (length bytes) = bytes"
  by (rule nth_equalityI) (simp_all add: mem_read_def mem_write_def)

lemma obj_store_frame:
  assumes "obj_store ds a m i bytes mem = Some mem'"
    and "x < a \<or> a + sizeof_members ds \<le> x"
  shows "mem' x = mem x"
proof -
  from assms(1) obtain addr sz where el: "obj_element ds a m i = Some (addr, sz)"
    and len: "length bytes = sz" and mem': "mem' = mem_write addr bytes mem"
    by (auto simp: obj_store_def split: option.splits if_splits)
  from obj_element_within [OF el] assms(2) len have "x < addr \<or> addr + length bytes \<le> x"
    by auto
  then show ?thesis
    by (simp add: mem' mem_write_outside)
qed

lemma obj_store_fetch:
  "obj_store ds a m i bytes mem = Some mem' \<Longrightarrow> obj_fetch ds a m i mem' = Some bytes"
  by (auto simp: obj_store_def obj_fetch_def mem_read_write_same split: option.splits if_splits)

lemma obj_mutate_frame:
  assumes "obj_mutate bo ib ia fb fa ds a m mem = Some mem'"
    and "x < a \<or> a + sizeof_members ds \<le> x"
  shows "mem' x = mem x"
  using assms
  by (cases m) (auto simp: obj_mutate_def split: Option.bind_splits dest: obj_store_frame)

lemma mem_read_cong:
  "(\<And>x. addr \<le> x \<Longrightarrow> x < addr + n \<Longrightarrow> mem' x = mem x) \<Longrightarrow> mem_read mem' addr n = mem_read mem addr n"
  by (simp add: mem_read_def)

lemma obj_fetch_cong:
  assumes "\<And>x. b \<le> x \<Longrightarrow> x < b + sizeof_members ds \<Longrightarrow> mem' x = mem x"
  shows "obj_fetch ds b m i mem' = obj_fetch ds b m i mem"
proof (cases "obj_element ds b m i")
  case None
  then show ?thesis by (simp add: obj_fetch_def)
next
  case (Some el)
  obtain addr sz where el: "el = (addr, sz)"
    by (cases el)
  from obj_element_within [of ds b m i addr sz] Some el
  have "b \<le> addr \<and> addr + sz \<le> b + sizeof_members ds"
    by simp
  then have "mem_read mem' addr sz = mem_read mem addr sz"
    by (intro mem_read_cong assms) auto
  with Some el show ?thesis
    by (simp add: obj_fetch_def)
qed

lemma obj_mutate_independent:
  assumes "a + sizeof_members ds \<le> b \<or> b + sizeof_members ds \<le> a"
    and "obj_mutate bo ib ia fb fa ds a m mem = Some mem'"
  shows "mem_read mem' b (sizeof_members ds) = mem_read mem b (sizeof_members ds)"
    and "obj_fetch ds b f i mem' = obj_fetch ds b f i mem"
proof -
  have same: "mem' x = mem x" if "b \<le> x" "x < b + sizeof_members ds" for x
    using that assms(1) by (intro obj_mutate_frame [OF assms(2)]) auto
  then show "mem_read mem' b (sizeof_members ds) = mem_read mem b (sizeof_members ds)"
    by (intro mem_read_cong) auto
  from same show "obj_fetch ds b f i mem' = obj_fetch ds b f i mem"
    by (intro obj_fetch_cong) auto
qed

lemma member_offset_defined:
  "member_extent ds m = Some e \<Longrightarrow> \<exists>off. member_offset pos ds m = Some off"
  by (induction ds arbitrary: pos) (auto split: if_splits)

lemma obj_element_defined:
  "member_extent ds m = Some (sz, n) \<Longrightarrow> i < n \<Longrightarrow> \<exists>addr. obj_element ds base m i = Some (addr, sz)"
  using member_offset_defined [of ds m "(sz, n)" 0] by (auto simp: obj_element_def)

lemma obj_store_defined:
  "member_extent ds m = Some (sz, n) \<Longrightarrow> i < n \<Longrightarrow> length bytes = sz \<Longrightarrow>
     obj_store ds base m i bytes mem \<noteq> None"
  using obj_element_defined [of ds m sz n i base] by (auto simp: obj_store_def)

lemma obj_fetch_defined:
  "member_extent ds m = Some (sz, n) \<Longrightarrow> i < n \<Longrightarrow>
     \<exists>bs. obj_fetch ds base m i mem = Some bs \<and> length bs = sz"
  using obj_element_defined [of ds m sz n i base] by (auto simp: obj_fetch_def mem_read_def)

lemma processor_member_extents:
  "member_extent (processor_rv64imafd_members bo js ja) M_pc = Some (8, 1)"
  "member_extent (processor_rv64imafd_members bo js ja) M_ireg = Some (8, 32)"
  "member_extent (processor_rv64imafd_members bo js ja) M_freg = Some (8, 32)"
  "member_extent (processor_rv64imafd_members bo js ja) M_time = Some (8, 1)"
  "member_extent (processor_rv64imafd_members bo js ja) M_cycle = Some (8, 1)"
  "member_extent (processor_rv64imafd_members bo js ja) M_instret = Some (8, 1)"
  "member_extent (processor_rv32imafd_members bo js ja) M_pc = Some (4, 1)"
  "member_extent (processor_rv32imafd_members bo js ja) M_ireg = Some (4, 32)"
  "member_extent (processor_rv32imafd_members bo js ja) M_freg = Some (8, 32)"
  "member_extent (processor_rv32imafd_members bo js ja) M_time = Some (8, 1)"
  "member_extent (processor_rv32imafd_members bo js ja) M_cycle = Some (8, 1)"
  "member_extent (processor_rv32imafd_members bo js ja) M_instret = Some (8, 1)"
  by (simp_all add: processor_rv64imafd_members_def processor_rv32imafd_members_def
      processor_members_def sizeof_union_r sizeof_def ireg_count_def freg_count_def)

lemma length_assign_bytes:
  "length bs = 4 \<Longrightarrow> length (ireg_rv32.r (ireg_rv32_assign bo v \<lparr>ireg_rv32.r = bs\<rparr>)) = 4"
  "length bs = 8 \<Longrightarrow> length (ireg_rv64.r (ireg_rv64_assign bo u \<lparr>ireg_rv64.r = bs\<rparr>)) = 8"
  "length bs = 8 \<Longrightarrow> length (freg_fp64.r (freg_fp64_s_assign bo w \<lparr>freg_fp64.r = bs\<rparr>)) = 8"
  by (simp_all add: ireg_rv32_assign_def ireg_rv64_assign_def freg_fp64_s_assign_def
      member_write_def ireg_rv32_x_def ireg_rv64_x_def freg_fp64_s_def sizeof_def)

lemma rv64_mutate_defined:
  "processor_rv64imafd_mutate bo js ja a (Set_pc v) mem \<noteq> None"
  "processor_rv64imafd_mutate bo js ja a (Set_time t) mem \<noteq> None"
  "processor_rv64imafd_mutate bo js ja a (Set_cycle t) mem \<noteq> None"
  "processor_rv64imafd_mutate bo js ja a (Set_instret t) mem \<noteq> None"
  "i < 32 \<Longrightarrow>
     processor_rv64imafd_mutate bo js ja a (Modify_ireg i (ireg_rv64_assign bo u)) mem \<noteq> None"
  "i < 32 \<Longrightarrow>
     processor_rv64imafd_mutate bo js ja a (Modify_freg i (freg_fp64_s_assign bo w)) mem \<noteq> None"
proof -
  let ?ds = "processor_rv64imafd_members bo js ja"
  show "processor_rv64imafd_mutate bo js ja a (Set_pc v) mem \<noteq> None"
    "processor_rv64imafd_mutate bo js ja a (Set_time t) mem \<noteq> None"
    "processor_rv64imafd_mutate bo js ja a (Set_cycle t) mem \<noteq> None"
    "processor_rv64imafd_mutate bo js ja a (Set_instret t) mem \<noteq> None"
    by (simp_all add: processor_rv64imafd_mutate_def obj_mutate_def obj_store_defined
        processor_member_extents sizeof_def)
  assume i: "i < 32"
  from obj_fetch_defined [OF processor_member_extents(2) i, of bo js ja a mem]
  obtain bs where bs: "obj_fetch ?ds a M_ireg i mem = Some bs" "length bs = 8"
    by blast
  with i show "processor_rv64imafd_mutate bo js ja a (Modify_ireg i (ireg_rv64_assign bo u)) mem
      \<noteq> None"
    by (simp add: processor_rv64imafd_mutate_def obj_mutate_def obj_store_defined
        processor_member_extents length_assign_bytes)
  from obj_fetch_defined [OF processor_member_extents(3) i, of bo js ja a mem]
  obtain fs where fs: "obj_fetch ?ds a M_freg i mem = Some fs" "length fs = 8"
    by blast
  with i show "processor_rv64imafd_mutate bo js ja a (Modify_freg i (freg_fp64_s_assign bo w)) mem
      \<noteq> None"
    by (simp add: processor_rv64imafd_mutate_def obj_mutate_def obj_store_defined
        processor_member_extents length_assign_bytes)
qed

lemma rv32_mutate_defined:
  "processor_rv32imafd_mutate bo js ja a (Set_pc v) mem \<noteq> None"
  "processor_rv32imafd_mutate bo js ja a (Set_time t) mem \<noteq> None"
  "processor_rv32imafd_mutate bo js ja a (Set_cycle t) mem \<noteq> None"
  "processor_rv32imafd_mutate bo js ja a (Set_instret t) mem \<noteq> None"
  "i < 32 \<Longrightarrow>
     processor_rv32imafd_mutate bo js ja a (Modify_ireg i (ireg_rv32_assign bo u)) mem \<noteq> None"
  "i < 32 \<Longrightarrow>
     processor_rv32imafd_mutate bo js ja a (Modify_freg i (freg_fp64_s_assign bo w)) mem \<noteq> None"
proof -
  let ?ds = "processor_rv32imafd_members bo js ja"
  show "processor_rv32imafd_mutate bo js ja a (Set_pc v) mem \<noteq> None"
    "processor_rv32imafd_mutate bo js ja a (Set_time t) mem \<noteq> None"
    "processor_rv32imafd_mutate bo js ja a (Set_cycle t) mem \<noteq> None"
    "processor_rv32imafd_mutate bo js ja a (Set_instret t) mem \<noteq> None"
    by (simp_all add: processor_rv32imafd_mutate_def obj_mutate_def obj_store_defined
        processor_member_extents sizeof_def)
  assume i: "i < 32"
  from obj_fetch_defined [OF processor_member_extents(8) i, of bo js ja a mem]
  obtain bs where bs: "obj_fetch ?ds a M_ireg i mem = Some bs" "length bs = 4"
    by blast
  with i show "processor_rv32imafd_mutate bo js ja a (Modify_ireg i (ireg_rv32_assign bo u)) mem
      \<noteq> None"
    by (simp add: processor_rv32imafd_mutate_def obj_mutate_def obj_store_defined
        processor_member_extents length_assign_bytes)
  from obj_fetch_defined [OF processor_member_extents(9) i, of bo js ja a mem]
  obtain fs where fs: "obj_fetch ?ds a M_freg i mem = Some fs" "length fs = 8"
    by blast
  with i show "processor_rv32imafd_mutate bo js ja a (Modify_freg i (freg_fp64_s_assign bo w)) mem
      \<noteq> None"
    by (simp add: processor_rv32imafd_mutate_def obj_mutate_def obj_store_defined
        processor_member_extents length_assign_bytes)
qed

lemma ireg_assign_bytes:
  "length bs = 4 \<Longrightarrow> ireg_rv32.r (ireg_rv32_assign bo v \<lparr>ireg_rv32.r = bs\<rparr>) = object_bytes bo v"
  "length bs = 8 \<Longrightarrow> ireg_rv64.r (ireg_rv64_assign bo u \<lparr>ireg_rv64.r = bs\<rparr>) = object_bytes bo u"
  by (simp_all add: ireg_rv32_assign_def ireg_rv64_assign_def member_write_def ireg_rv32_x_def
      ireg_rv64_x_def sizeof_def)

lemma rv64_assign_ireg_effect:
  assumes "processor_rv64imafd_mutate bo js ja a (Modify_ireg i (ireg_rv64_assign bo u)) mem
      = Some mem'"
  shows "obj_fetch (processor_rv64imafd_members bo js ja) a M_ireg i mem' = Some (object_bytes bo u)"
proof -
  let ?ds = "processor_rv64imafd_members bo js ja"
  from assms obtain bs where bs: "obj_fetch ?ds a M_ireg i mem = Some bs"
    and st: "obj_store ?ds a M_ireg i (ireg_rv64.r (ireg_rv64_assign bo u \<lparr>ireg_rv64.r = bs\<rparr>)) mem
      = Some mem'"
    by (auto simp: processor_rv64imafd_mutate_def obj_mutate_def split: Option.bind_splits)
  from bs have "length bs = 8"
    by (auto simp: obj_fetch_def obj_element_def processor_member_extents mem_read_def
        split: option.splits if_splits)
  with obj_store_fetch [OF st] show ?thesis
    by (simp add: ireg_assign_bytes)
qed

lemma rv32_assign_ireg_effect:
  assumes "processor_rv32imafd_mutate bo js ja a (Modify_ireg i (ireg_rv32_assign bo u)) mem
      = Some mem'"
  shows "obj_fetch (processor_rv32imafd_members bo js ja) a M_ireg i mem' = Some (object_bytes bo u)"
proof -
  let ?ds = "processor_rv32imafd_members bo js ja"
  from assms obtain bs where bs: "obj_fetch ?ds a M_ireg i mem = Some bs"
    and st: "obj_store ?ds a M_ireg i (ireg_rv32.r (ireg_rv32_assign bo u \<lparr>ireg_rv32.r = bs\<rparr>)) mem
      = Some mem'"
    by (auto simp: processor_rv32imafd_mutate_def obj_mutate_def split: Option.bind_splits)
  from bs have "length bs = 4"
    by (auto simp: obj_fetch_def obj_element_def processor_member_extents mem_read_def
        split: option.splits if_splits)
  with obj_store_fetch [OF st] show ?thesis
    by (simp add: ireg_assign_bytes)
qed

lemma sizeof_members_hosts:
  "sizeof_members (processor_rv64imafd_members LITTLE_ENDIAN 200 8) = 776"
  "sizeof_members (processor_rv32imafd_members BIG_ENDIAN 156 4) = 600"
  by (simp_all add: sizeof_members_def processor_rv64imafd_members_def
      processor_rv32imafd_members_def processor_members_def sizeof_union_r sizeof_def
      ireg_count_def freg_count_def align_up_def)

text \<open>
  Claim C8. Two instances are distinct objects, so the bytes of one do not overlap the
  bytes of the other. For both configurations, whatever the memory holds: a mutation of
  the program counter, of an integer or floating-point register or of a counter of the
  instance at one address leaves every byte of the other instance, and so every element
  of every member read from it, as it was. The assignments to the program counter and
  to the counters are always defined, and those to a register are for every index
  below the register count.
\<close>

theorem instances_independent:
  "(a + sizeof_members (processor_rv64imafd_members bo js ja) \<le> b
      \<or> b + sizeof_members (processor_rv64imafd_members bo js ja) \<le> a \<longrightarrow>
     (\<forall>mem'. processor_rv64imafd_mutate bo js ja a m64 mem = Some mem' \<longrightarrow>
        mem_read mem' b (sizeof_members (processor_rv64imafd_members bo js ja))
          = mem_read mem b (sizeof_members (processor_rv64imafd_members bo js ja))
        \<and> (\<forall>f i. obj_fetch (processor_rv64imafd_members bo js ja) b f i mem'
              = obj_fetch (processor_rv64imafd_members bo js ja) b f i mem)))
   \<and> (a + sizeof_members (processor_rv32imafd_members bo js ja) \<le> b
      \<or> b + sizeof_members (processor_rv32imafd_members bo js ja) \<le> a \<longrightarrow>
     (\<forall>mem'. processor_rv32imafd_mutate bo js ja a m32 mem = Some mem' \<longrightarrow>
        mem_read mem' b (sizeof_members (processor_rv32imafd_members bo js ja))
          = mem_read mem b (sizeof_members (processor_rv32imafd_members bo js ja))
        \<and> (\<forall>f i. obj_fetch (processor_rv32imafd_members bo js ja) b f i mem'
              = obj_fetch (processor_rv32imafd_members bo js ja) b f i mem)))
   \<and> (processor_rv64imafd_mutate bo js ja a (Set_pc v64) mem \<noteq> None
      \<and> processor_rv64imafd_mutate bo js ja a (Set_time t) mem \<noteq> None
      \<and> processor_rv64imafd_mutate bo js ja a (Set_cycle t) mem \<noteq> None
      \<and> processor_rv64imafd_mutate bo js ja a (Set_instret t) mem \<noteq> None
      \<and> (k < 32 \<longrightarrow>
          processor_rv64imafd_mutate bo js ja a (Modify_ireg k (ireg_rv64_assign bo u64)) mem \<noteq> None
          \<and> processor_rv64imafd_mutate bo js ja a (Modify_freg k (freg_fp64_s_assign bo w)) mem
              \<noteq> None))
   \<and> (processor_rv32imafd_mutate bo js ja a (Set_pc v32) mem \<noteq> None
      \<and> processor_rv32imafd_mutate bo js ja a (Set_time t) mem \<noteq> None
      \<and> processor_rv32imafd_mutate bo js ja a (Set_cycle t) mem \<noteq> None
      \<and> processor_rv32imafd_mutate bo js ja a (Set_instret t) mem \<noteq> None
      \<and> (k < 32 \<longrightarrow>
          processor_rv32imafd_mutate bo js ja a (Modify_ireg k (ireg_rv32_assign bo u32)) mem \<noteq> None
          \<and> processor_rv32imafd_mutate bo js ja a (Modify_freg k (freg_fp64_s_assign bo w)) mem
              \<noteq> None))"
proof (intro conjI impI allI)
  fix mem'
  assume "a + sizeof_members (processor_rv64imafd_members bo js ja) \<le> b
      \<or> b + sizeof_members (processor_rv64imafd_members bo js ja) \<le> a"
    and "processor_rv64imafd_mutate bo js ja a m64 mem = Some mem'"
  then have ind: "a + sizeof_members (processor_rv64imafd_members bo js ja) \<le> b
      \<or> b + sizeof_members (processor_rv64imafd_members bo js ja) \<le> a"
    "obj_mutate bo ireg_rv64.r (\<lambda>bs. \<lparr>ireg_rv64.r = bs\<rparr>) freg_fp64.r (\<lambda>bs. \<lparr>freg_fp64.r = bs\<rparr>)
       (processor_rv64imafd_members bo js ja) a m64 mem = Some mem'"
    by (simp_all add: processor_rv64imafd_mutate_def)
  show "mem_read mem' b (sizeof_members (processor_rv64imafd_members bo js ja))
      = mem_read mem b (sizeof_members (processor_rv64imafd_members bo js ja))"
    by (rule obj_mutate_independent(1) [OF ind])
  show "obj_fetch (processor_rv64imafd_members bo js ja) b f i mem'
      = obj_fetch (processor_rv64imafd_members bo js ja) b f i mem" for f i
    by (rule obj_mutate_independent(2) [OF ind])
next
  fix mem'
  assume "a + sizeof_members (processor_rv32imafd_members bo js ja) \<le> b
      \<or> b + sizeof_members (processor_rv32imafd_members bo js ja) \<le> a"
    and "processor_rv32imafd_mutate bo js ja a m32 mem = Some mem'"
  then have ind: "a + sizeof_members (processor_rv32imafd_members bo js ja) \<le> b
      \<or> b + sizeof_members (processor_rv32imafd_members bo js ja) \<le> a"
    "obj_mutate bo ireg_rv32.r (\<lambda>bs. \<lparr>ireg_rv32.r = bs\<rparr>) freg_fp64.r (\<lambda>bs. \<lparr>freg_fp64.r = bs\<rparr>)
       (processor_rv32imafd_members bo js ja) a m32 mem = Some mem'"
    by (simp_all add: processor_rv32imafd_mutate_def)
  show "mem_read mem' b (sizeof_members (processor_rv32imafd_members bo js ja))
      = mem_read mem b (sizeof_members (processor_rv32imafd_members bo js ja))"
    by (rule obj_mutate_independent(1) [OF ind])
  show "obj_fetch (processor_rv32imafd_members bo js ja) b f i mem'
      = obj_fetch (processor_rv32imafd_members bo js ja) b f i mem" for f i
    by (rule obj_mutate_independent(2) [OF ind])
qed (simp_all add: rv64_mutate_defined rv32_mutate_defined)

theorem instances_independent_witness:
  "0 + sizeof_members (processor_rv64imafd_members LITTLE_ENDIAN 200 8) \<le> 776
   \<and> 0 + sizeof_members (processor_rv32imafd_members BIG_ENDIAN 156 4) \<le> 600
   \<and> (5::nat) < 32
   \<and> Option.bind
        (processor_rv64imafd_mutate LITTLE_ENDIAN 200 8 776
          (Modify_ireg 5 (ireg_rv64_assign LITTLE_ENDIAN 7)) (\<lambda>x. of_nat x))
        (\<lambda>mem. Option.bind
          (processor_rv64imafd_mutate LITTLE_ENDIAN 200 8 0
            (Modify_ireg 5 (ireg_rv64_assign LITTLE_ENDIAN (- 1))) mem)
          (\<lambda>mem'. Some
            (map_option (\<lambda>bs. ireg_rv64_bu_val LITTLE_ENDIAN \<lparr>ireg_rv64.r = bs\<rparr>)
               (obj_fetch (processor_rv64imafd_members LITTLE_ENDIAN 200 8) 0 M_ireg 5 mem'),
             map_option (\<lambda>bs. ireg_rv64_x_val LITTLE_ENDIAN \<lparr>ireg_rv64.r = bs\<rparr>)
               (obj_fetch (processor_rv64imafd_members LITTLE_ENDIAN 200 8) 776 M_ireg 5 mem'))))
       = Some (Some 255, Some 7)
   \<and> Option.bind
        (processor_rv32imafd_mutate BIG_ENDIAN 156 4 600
          (Modify_ireg 5 (ireg_rv32_assign BIG_ENDIAN 7)) (\<lambda>x. of_nat x))
        (\<lambda>mem. Option.bind
          (processor_rv32imafd_mutate BIG_ENDIAN 156 4 0
            (Modify_ireg 5 (ireg_rv32_assign BIG_ENDIAN (- 1))) mem)
          (\<lambda>mem'. Some
            (map_option (\<lambda>bs. ireg_rv32_bu_val BIG_ENDIAN \<lparr>ireg_rv32.r = bs\<rparr>)
               (obj_fetch (processor_rv32imafd_members BIG_ENDIAN 156 4) 0 M_ireg 5 mem'),
             map_option (\<lambda>bs. ireg_rv32_x_val BIG_ENDIAN \<lparr>ireg_rv32.r = bs\<rparr>)
               (obj_fetch (processor_rv32imafd_members BIG_ENDIAN 156 4) 600 M_ireg 5 mem'))))
       = Some (Some 255, Some 7)"
proof -
  let ?m0 = "(\<lambda>x. of_nat x) :: memory"
  let ?L64 = "processor_rv64imafd_members LITTLE_ENDIAN 200 8"
  let ?L32 = "processor_rv32imafd_members BIG_ENDIAN 156 4"
  let ?w64 = "Modify_ireg 5 (ireg_rv64_assign LITTLE_ENDIAN (- 1))"
  let ?w32 = "Modify_ireg 5 (ireg_rv32_assign BIG_ENDIAN (- 1))"
  have five: "(5::nat) < 32"
    by simp
  have apart64: "0 + sizeof_members ?L64 \<le> 776" and apart32: "0 + sizeof_members ?L32 \<le> 600"
    by (simp_all add: sizeof_members_hosts)
  have views:
    "ireg_rv64_bu_val LITTLE_ENDIAN \<lparr>ireg_rv64.r = object_bytes LITTLE_ENDIAN (- 1 :: s64)\<rparr> = 255"
    "ireg_rv64_x_val LITTLE_ENDIAN \<lparr>ireg_rv64.r = object_bytes LITTLE_ENDIAN (7 :: s64)\<rparr> = 7"
    "ireg_rv32_bu_val BIG_ENDIAN \<lparr>ireg_rv32.r = object_bytes BIG_ENDIAN (- 1 :: s32)\<rparr> = 255"
    "ireg_rv32_x_val BIG_ENDIAN \<lparr>ireg_rv32.r = object_bytes BIG_ENDIAN (7 :: s32)\<rparr> = 7"
    by (simp_all add: ireg_rv64_bu_val_def ireg_rv64_bu_def ireg_rv64_x_val_def ireg_rv64_x_def
        ireg_rv32_bu_val_def ireg_rv32_bu_def ireg_rv32_x_val_def ireg_rv32_x_def
        member_read_def object_bytes_def object_value_def word_rcat_def sizeof_def upt_rec
        unsigned_minus_1_eq_mask mask_eq_exp_minus_1)

  from instances_independent [where a = 776 and bo = LITTLE_ENDIAN and js = 200 and ja = 8
      and mem = ?m0 and k = 5 and ?u64.0 = 7] five
  obtain mem1 where b64: "processor_rv64imafd_mutate LITTLE_ENDIAN 200 8 776
      (Modify_ireg 5 (ireg_rv64_assign LITTLE_ENDIAN 7)) ?m0 = Some mem1"
    by blast
  note at_a64 = instances_independent [where a = 0 and b = 776 and bo = LITTLE_ENDIAN
      and js = 200 and ja = 8 and mem = mem1 and ?m64.0 = ?w64 and k = 5 and ?u64.0 = "- 1"]
  from at_a64 five obtain mem2 where a64: "processor_rv64imafd_mutate LITTLE_ENDIAN 200 8 0 ?w64 mem1
      = Some mem2"
    by blast
  from at_a64 apart64 a64 have "obj_fetch ?L64 776 M_ireg 5 mem2 = obj_fetch ?L64 776 M_ireg 5 mem1"
    by blast
  with rv64_assign_ireg_effect [OF b64]
  have other64: "obj_fetch ?L64 776 M_ireg 5 mem2 = Some (object_bytes LITTLE_ENDIAN (7 :: s64))"
    by simp
  note own64 = rv64_assign_ireg_effect [OF a64]

  from instances_independent [where a = 600 and bo = BIG_ENDIAN and js = 156 and ja = 4
      and mem = ?m0 and k = 5 and ?u32.0 = 7] five
  obtain mem3 where b32: "processor_rv32imafd_mutate BIG_ENDIAN 156 4 600
      (Modify_ireg 5 (ireg_rv32_assign BIG_ENDIAN 7)) ?m0 = Some mem3"
    by blast
  note at_a32 = instances_independent [where a = 0 and b = 600 and bo = BIG_ENDIAN
      and js = 156 and ja = 4 and mem = mem3 and ?m32.0 = ?w32 and k = 5 and ?u32.0 = "- 1"]
  from at_a32 five obtain mem4 where a32: "processor_rv32imafd_mutate BIG_ENDIAN 156 4 0 ?w32 mem3
      = Some mem4"
    by blast
  from at_a32 apart32 a32 have "obj_fetch ?L32 600 M_ireg 5 mem4 = obj_fetch ?L32 600 M_ireg 5 mem3"
    by blast
  with rv32_assign_ireg_effect [OF b32]
  have other32: "obj_fetch ?L32 600 M_ireg 5 mem4 = Some (object_bytes BIG_ENDIAN (7 :: s32))"
    by simp
  note own32 = rv32_assign_ireg_effect [OF a32]

  from five apart64 apart32 show ?thesis
    by (simp only: b64 a64 own64 other64 b32 a32 own32 other32 views
        Option.bind.simps option.map simp_thms)
qed

lemma log_enabled_bit: "k < 32 \<Longrightarrow> log_enabled (2 ^ k) l \<longleftrightarrow> bit l k"
  by (simp add: log_enabled_def word_of_int_2p and_exp_eq_0_iff_not_bit)

lemma log_enable_bit: "k < 32 \<Longrightarrow> bit (log_enable (2 ^ k) l) j \<longleftrightarrow> bit l j \<or> j = k"
  by (auto simp: log_enable_def word_of_int_2p bit_or_iff bit_exp_iff)

lemma log_disable_bit: "k < 32 \<Longrightarrow> bit (log_disable (2 ^ k) l) j \<longleftrightarrow> bit l j \<and> j \<noteq> k"
  by (auto simp: log_disable_def word_of_int_2p bit_and_iff bit_not_iff bit_exp_iff
      dest: bit_imp_le_length)

lemma proc_log_flags_powers: "proc_log_flags = map (\<lambda>k. 2 ^ k) [0..<9]"
  by (simp add: proc_log_flags_def proc_log_inst_def proc_log_operands_def proc_log_memory_def
      proc_log_csr_mmode_def proc_log_csr_hmode_def proc_log_csr_smode_def
      proc_log_csr_umode_def proc_log_int_reg_def proc_log_no_pseudo_def upt_rec)

lemma proc_log_flags_nth: "i < 9 \<Longrightarrow> proc_log_flags ! i = 2 ^ i"
  by (simp add: proc_log_flags_powers)

lemma proc_log_flags_mem: "f \<in> set proc_log_flags \<longleftrightarrow> (\<exists>k<9. f = 2 ^ k)"
  by (auto simp: proc_log_flags_powers)

lemma int_exp_disjoint: "i \<noteq> j \<Longrightarrow> (2 ^ i :: int) AND 2 ^ j = 0"
  by (auto simp: bit_eq_iff bit_and_iff bit_exp_iff)

text \<open>
  Claim C9. The log flags are nine enumerators, the powers of two from \<open>2 ^ 0\<close> to
  \<open>2 ^ 8\<close>: pairwise distinct and with no common bit. In the stored \<^verbatim>\<open>u32\<close> bit-set,
  enabling or disabling one flag does not change whether another one is enabled, and
  does change the flag itself.
\<close>

theorem log_flags_distinct_bits:
  "length proc_log_flags = 9
   \<and> proc_log_flags = [1, 2, 4, 8, 16, 32, 64, 128, 256]
   \<and> proc_log_flags = map (\<lambda>k. 2 ^ k) [0..<9]
   \<and> distinct proc_log_flags
   \<and> (\<forall>i j. i < 9 \<and> j < 9 \<and> i \<noteq> j \<longrightarrow> proc_log_flags ! i AND proc_log_flags ! j = 0)
   \<and> (\<forall>f g l. f \<in> set proc_log_flags \<and> g \<in> set proc_log_flags \<and> f \<noteq> g \<longrightarrow>
         log_enabled g (log_enable f l) = log_enabled g l
         \<and> log_enabled g (log_disable f l) = log_enabled g l)
   \<and> (\<forall>f l. f \<in> set proc_log_flags \<longrightarrow>
         log_enabled f (log_enable f l) \<and> \<not> log_enabled f (log_disable f l))"
proof (intro conjI allI impI)
  show "length proc_log_flags = 9"
    by (simp add: proc_log_flags_def)
  show "proc_log_flags = [1, 2, 4, 8, 16, 32, 64, 128, 256]"
    by (simp add: proc_log_flags_powers upt_rec)
  show "proc_log_flags = map (\<lambda>k. 2 ^ k) [0..<9]"
    by (rule proc_log_flags_powers)
  show "distinct proc_log_flags"
    by (simp add: proc_log_flags_powers distinct_map inj_on_def)
next
  fix i j :: nat
  assume "i < 9 \<and> j < 9 \<and> i \<noteq> j"
  then show "proc_log_flags ! i AND proc_log_flags ! j = 0"
    by (simp add: proc_log_flags_nth int_exp_disjoint)
next
  fix f g l
  assume "f \<in> set proc_log_flags \<and> g \<in> set proc_log_flags \<and> f \<noteq> g"
  then obtain i j where ij: "i < 9" "j < 9" "f = 2 ^ i" "g = 2 ^ j" "i \<noteq> j"
    by (auto simp: proc_log_flags_mem)
  then show "log_enabled g (log_enable f l) = log_enabled g l"
    by (simp add: log_enabled_bit log_enable_bit)
  from ij show "log_enabled g (log_disable f l) = log_enabled g l"
    by (simp add: log_enabled_bit log_disable_bit)
next
  fix f l
  assume "f \<in> set proc_log_flags"
  then obtain i where i: "i < 9" "f = 2 ^ i"
    by (auto simp: proc_log_flags_mem)
  then show "log_enabled f (log_enable f l)"
    by (simp add: log_enabled_bit log_enable_bit)
  from i show "\<not> log_enabled f (log_disable f l)"
    by (simp add: log_enabled_bit log_disable_bit)
qed

theorem log_flags_distinct_bits_witness:
  "(3::nat) < 9 \<and> (8::nat) < 9 \<and> (3::nat) \<noteq> 8
   \<and> proc_log_csr_mmode \<in> set proc_log_flags \<and> proc_log_no_pseudo \<in> set proc_log_flags
   \<and> proc_log_csr_mmode \<noteq> proc_log_no_pseudo
   \<and> proc_log_flags ! 3 AND proc_log_flags ! 8 = 0
   \<and> log_enabled proc_log_no_pseudo (log_enable proc_log_csr_mmode 0x100)
   \<and> log_enabled proc_log_no_pseudo (log_disable proc_log_csr_mmode 0x108)
   \<and> log_enabled proc_log_csr_mmode (log_enable proc_log_csr_mmode 0x100)
   \<and> \<not> log_enabled proc_log_csr_mmode (log_disable proc_log_csr_mmode 0x108)"
proof -
  have mem: "proc_log_csr_mmode \<in> set proc_log_flags \<and> proc_log_no_pseudo \<in> set proc_log_flags
      \<and> proc_log_csr_mmode \<noteq> proc_log_no_pseudo"
    by (simp add: proc_log_flags_def proc_log_csr_mmode_def proc_log_no_pseudo_def)
  have idx: "(3::nat) < 9 \<and> (8::nat) < 9 \<and> (3::nat) \<noteq> 8"
    by simp
  have base: "log_enabled proc_log_no_pseudo 0x100" "log_enabled proc_log_no_pseudo 0x108"
    by (simp_all add: log_enabled_def proc_log_no_pseudo_def)
  from log_flags_distinct_bits mem idx base show ?thesis
    by metis
qed

text \<open>
  Claim C10. The node and hart identifiers are 16-bit unsigned fields: a value read
  from either is at most 65535, and an unsigned integer of any width assigned to either
  is stored modulo \<open>2 ^ 16\<close>.
\<close>

theorem hart_identity_u16:
  "unat (node_id p) \<le> 65535 \<and> unat (hart_id p) \<le> 65535
   \<and> unat (node_id (assign_node_id v p)) = unat v mod 2 ^ 16
   \<and> unat (hart_id (assign_hart_id v p)) = unat v mod 2 ^ 16"
proof -
  have bound: "unat w \<le> 65535" for w :: u16
  proof -
    have "unat w < 2 ^ LENGTH(16)"
      by (rule unsigned_less)
    then show ?thesis
      by simp
  qed
  have conv: "unat (ucast w :: u16) = unat w mod 2 ^ 16" for w :: "'w::len word"
    by (simp add: unsigned_ucast_eq take_bit_eq_mod)
  show ?thesis
    by (simp add: bound conv assign_node_id_def assign_hart_id_def)
qed

end
